theory Spec2Isabelle
  imports Complex_Main "HOL-Library.Word" "HOL-Library.Monad_Syntax"
begin

unbundle bit_operations_syntax

section \<open>The memory model\<close>

text \<open>
  \<^verbatim>\<open>mm.c\<close> keeps the links of a free block in 4-byte words
  (\<^verbatim>\<open>SET_PTR\<close> stores a pointer through an \<^verbatim>\<open>unsigned int *\<close>) and reads them
  back as \<^verbatim>\<open>char *\<close>, so it is a program for the ILP32 target of the malloc lab:
  pointers, \<^verbatim>\<open>size_t\<close>, \<^verbatim>\<open>unsigned int\<close> and \<^verbatim>\<open>int\<close> are all 32 bits wide.
  Addresses and sizes are therefore \<open>32 word\<close>; \<open>+\<close> and \<open>-\<close> wrap as the C
  arithmetic does, \<open><\<close> on words is the unsigned comparison and \<open>sint\<close> reads
  a word as the \<^verbatim>\<open>int\<close> it is converted to.

  The arena is a function from byte addresses to the 4-byte word stored there. Every
  access of the allocator is a whole word (\<^verbatim>\<open>GET\<close>, \<^verbatim>\<open>PUT_NOTAG\<close>, \<^verbatim>\<open>SET_PTR\<close>,
  \<^verbatim>\<open>PRED\<close>, \<^verbatim>\<open>SUCC\<close>), at addresses that differ by multiples of four from the
  block pointers.
\<close>

type_synonym addr = "32 word"
type_synonym word32 = "32 word"

record mstate =
  heap :: "addr \<Rightarrow> word32"
  segregated_free_lists :: "nat \<Rightarrow> addr"
  mem_brk :: addr
  mem_max_addr :: addr

abbreviation NULL :: addr where "NULL \<equiv> 0"
abbreviation WSIZE :: word32 where "WSIZE \<equiv> 4"
abbreviation DSIZE :: word32 where "DSIZE \<equiv> 8"
abbreviation INITCHUNKSIZE :: word32 where "INITCHUNKSIZE \<equiv> 64"
abbreviation CHUNKSIZE :: word32 where "CHUNKSIZE \<equiv> 4096"
abbreviation LISTLIMIT :: nat where "LISTLIMIT \<equiv> 20"
abbreviation REALLOC_BUFFER :: word32 where "REALLOC_BUFFER \<equiv> 128"

definition ALIGN :: "word32 \<Rightarrow> word32" where
  "ALIGN sz = (sz + 7) AND NOT 7"

definition PACK :: "word32 \<Rightarrow> word32 \<Rightarrow> word32" where
  "PACK sz alloc = sz OR alloc"

definition GET :: "mstate \<Rightarrow> addr \<Rightarrow> word32" where
  "GET st p = heap st p"

definition PUT_NOTAG :: "mstate \<Rightarrow> addr \<Rightarrow> word32 \<Rightarrow> mstate" where
  "PUT_NOTAG st p val = st\<lparr>heap := (heap st)(p := val)\<rparr>"

definition SET_PTR :: "mstate \<Rightarrow> addr \<Rightarrow> addr \<Rightarrow> mstate" where
  "SET_PTR st p ptr = st\<lparr>heap := (heap st)(p := ptr)\<rparr>"

definition GET_SIZE :: "mstate \<Rightarrow> addr \<Rightarrow> word32" where
  "GET_SIZE st p = GET st p AND NOT 7"

definition GET_ALLOC :: "mstate \<Rightarrow> addr \<Rightarrow> word32" where
  "GET_ALLOC st p = GET st p AND 1"

definition HDRP :: "addr \<Rightarrow> addr" where
  "HDRP ptr = ptr - WSIZE"

definition FTRP :: "mstate \<Rightarrow> addr \<Rightarrow> addr" where
  "FTRP st ptr = ptr + GET_SIZE st (HDRP ptr) - DSIZE"

definition NEXT_BLKP :: "mstate \<Rightarrow> addr \<Rightarrow> addr" where
  "NEXT_BLKP st ptr = ptr + GET_SIZE st (ptr - WSIZE)"

definition PREV_BLKP :: "mstate \<Rightarrow> addr \<Rightarrow> addr" where
  "PREV_BLKP st ptr = ptr - GET_SIZE st (ptr - DSIZE)"

definition PRED_PTR :: "addr \<Rightarrow> addr" where
  "PRED_PTR ptr = ptr"

definition SUCC_PTR :: "addr \<Rightarrow> addr" where
  "SUCC_PTR ptr = ptr + WSIZE"

definition PRED :: "mstate \<Rightarrow> addr \<Rightarrow> addr" where
  "PRED st ptr = GET st ptr"

definition SUCC :: "mstate \<Rightarrow> addr \<Rightarrow> addr" where
  "SUCC st ptr = GET st (SUCC_PTR ptr)"

definition set_list :: "mstate \<Rightarrow> nat \<Rightarrow> addr \<Rightarrow> mstate" where
  "set_list st lst p = st\<lparr>segregated_free_lists := (segregated_free_lists st)(lst := p)\<rparr>"

text \<open>
  Modelled from the spec: \<^verbatim>\<open>mem_sbrk\<close> of \<^verbatim>\<open>memlib.c\<close>, which is not part of the
  sources. The host primitive grows the high watermark of the arena by \<open>incr\<close> bytes and
  returns the address of the first new byte, or the failure sentinel \<^verbatim>\<open>(void *)-1\<close>
  when the arena cannot grow that far.
\<close>

definition mem_sbrk :: "mstate \<Rightarrow> word32 \<Rightarrow> mstate \<times> addr" where
  "mem_sbrk st incr =
     (if unat (mem_brk st) + unat incr > unat (mem_max_addr st) then (st, - 1)
      else (st\<lparr>mem_brk := mem_brk st + incr\<rparr>, mem_brk st))"

section \<open>The segregated index\<close>

text \<open>
  The loop that selects the size class, the same in \<^verbatim>\<open>insert_node\<close> and
  \<^verbatim>\<open>delete_node\<close>:
  \<^verbatim>\<open>while ((list < LISTLIMIT - 1) && (size > 1)) { size >>= 1; list++; }\<close>
  It returns both variables, since \<^verbatim>\<open>insert_node\<close> goes on using the shifted
  \<^verbatim>\<open>size\<close>.
\<close>

function select_list :: "nat \<Rightarrow> word32 \<Rightarrow> nat \<times> word32" where
  "select_list lst sz =
     (if lst < LISTLIMIT - 1 \<and> sz > 1 then select_list (lst + 1) (drop_bit 1 sz)
      else (lst, sz))"
  by pat_completeness auto
termination
  by (relation "measure (\<lambda>(lst, sz). LISTLIMIT - 1 - lst)") auto

declare select_list.simps [simp del]

text \<open>
  The search of \<^verbatim>\<open>insert_node\<close> along the \<^verbatim>\<open>PRED\<close> links. On a cyclic list of
  small blocks the loop does not end, hence the option type.
\<close>

partial_function (option) insert_search ::
  "mstate \<Rightarrow> word32 \<Rightarrow> addr \<Rightarrow> addr \<Rightarrow> (addr \<times> addr) option" where
  "insert_search st sz search_ptr insert_ptr =
     (if search_ptr \<noteq> NULL \<and> sz > GET_SIZE st (HDRP search_ptr)
      then insert_search st sz (PRED st search_ptr) search_ptr
      else Some (search_ptr, insert_ptr))"

declare insert_search.simps [code]

text \<open>
  The four link cases of \<^verbatim>\<open>insert_node\<close>, for the position \<open>(search_ptr, insert_ptr)\<close>
  that the search has found in bucket \<open>lst\<close>.
\<close>

definition insert_links :: "mstate \<Rightarrow> nat \<Rightarrow> addr \<Rightarrow> addr \<Rightarrow> addr \<Rightarrow> mstate" where
  "insert_links st lst ptr search_ptr insert_ptr =
     (if search_ptr \<noteq> NULL then
        (if insert_ptr \<noteq> NULL then
           (let st = SET_PTR st (PRED_PTR ptr) search_ptr;
                st = SET_PTR st (SUCC_PTR search_ptr) ptr;
                st = SET_PTR st (SUCC_PTR ptr) insert_ptr
            in SET_PTR st (PRED_PTR insert_ptr) ptr)
         else
           (let st = SET_PTR st (PRED_PTR ptr) search_ptr;
                st = SET_PTR st (SUCC_PTR search_ptr) ptr;
                st = SET_PTR st (SUCC_PTR ptr) NULL
            in set_list st lst ptr))
      else
        (if insert_ptr \<noteq> NULL then
           (let st = SET_PTR st (PRED_PTR ptr) NULL;
                st = SET_PTR st (SUCC_PTR ptr) insert_ptr
            in SET_PTR st (PRED_PTR insert_ptr) ptr)
         else
           (let st = SET_PTR st (PRED_PTR ptr) NULL;
                st = SET_PTR st (SUCC_PTR ptr) NULL
            in set_list st lst ptr)))"

definition insert_node :: "mstate \<Rightarrow> addr \<Rightarrow> word32 \<Rightarrow> mstate option" where
  "insert_node st ptr size0 =
     (case select_list 0 size0 of (lst, sz) \<Rightarrow>
        (case insert_search st sz (segregated_free_lists st lst) NULL of
           None \<Rightarrow> None
         | Some (search_ptr, insert_ptr) \<Rightarrow> Some (insert_links st lst ptr search_ptr insert_ptr)))"

definition delete_node :: "mstate \<Rightarrow> addr \<Rightarrow> mstate" where
  "delete_node st ptr =
     (case select_list 0 (GET_SIZE st (HDRP ptr)) of (lst, sz) \<Rightarrow>
        (if PRED st ptr \<noteq> NULL then
           (if SUCC st ptr \<noteq> NULL then
              (let st = SET_PTR st (SUCC_PTR (PRED st ptr)) (SUCC st ptr)
               in SET_PTR st (PRED_PTR (SUCC st ptr)) (PRED st ptr))
            else
              (let st = SET_PTR st (SUCC_PTR (PRED st ptr)) NULL
               in set_list st lst (PRED st ptr)))
         else
           (if SUCC st ptr \<noteq> NULL then SET_PTR st (PRED_PTR (SUCC st ptr)) NULL
            else set_list st lst NULL)))"

section \<open>Coalescing, heap extension and placement\<close>

text \<open>
  The macros read the arena again at every use, so each \<open>let\<close> below hands on the
  state written so far, in the order of the statements of \<^verbatim>\<open>mm.c\<close>.
\<close>

definition coalesce :: "mstate \<Rightarrow> addr \<Rightarrow> (mstate \<times> addr) option" where
  "coalesce st ptr =
     (let prev_alloc = GET_ALLOC st (HDRP (PREV_BLKP st ptr));
          next_alloc = GET_ALLOC st (HDRP (NEXT_BLKP st ptr));
          sz = GET_SIZE st (HDRP ptr)
      in if prev_alloc \<noteq> 0 \<and> next_alloc \<noteq> 0 then Some (st, ptr)
         else if prev_alloc \<noteq> 0 \<and> next_alloc = 0 then
           (let st = delete_node st ptr;
                st = delete_node st (NEXT_BLKP st ptr);
                sz = sz + GET_SIZE st (HDRP (NEXT_BLKP st ptr));
                st = PUT_NOTAG st (HDRP ptr) (PACK sz 0);
                st = PUT_NOTAG st (FTRP st ptr) (PACK sz 0)
            in case insert_node st ptr sz of None \<Rightarrow> None | Some st \<Rightarrow> Some (st, ptr))
         else if prev_alloc = 0 \<and> next_alloc \<noteq> 0 then
           (let st = delete_node st ptr;
                st = delete_node st (PREV_BLKP st ptr);
                sz = sz + GET_SIZE st (HDRP (PREV_BLKP st ptr));
                st = PUT_NOTAG st (FTRP st ptr) (PACK sz 0);
                st = PUT_NOTAG st (HDRP (PREV_BLKP st ptr)) (PACK sz 0);
                ptr = PREV_BLKP st ptr
            in case insert_node st ptr sz of None \<Rightarrow> None | Some st \<Rightarrow> Some (st, ptr))
         else
           (let st = delete_node st ptr;
                st = delete_node st (PREV_BLKP st ptr);
                st = delete_node st (NEXT_BLKP st ptr);
                sz = sz + GET_SIZE st (HDRP (PREV_BLKP st ptr))
                        + GET_SIZE st (HDRP (NEXT_BLKP st ptr));
                st = PUT_NOTAG st (HDRP (PREV_BLKP st ptr)) (PACK sz 0);
                st = PUT_NOTAG st (FTRP st (NEXT_BLKP st ptr)) (PACK sz 0);
                ptr = PREV_BLKP st ptr
            in case insert_node st ptr sz of None \<Rightarrow> None | Some st \<Rightarrow> Some (st, ptr)))"

text \<open>\<^verbatim>\<open>extend_heap\<close> returns \<open>NULL\<close> when \<^verbatim>\<open>mem_sbrk\<close> fails.\<close>

definition extend_heap :: "mstate \<Rightarrow> word32 \<Rightarrow> (mstate \<times> addr) option" where
  "extend_heap st sz =
     (let asize = ALIGN sz
      in case mem_sbrk st asize of (st, ptr) \<Rightarrow>
           if ptr = - 1 then Some (st, NULL)
           else
             (let st = PUT_NOTAG st (HDRP ptr) (PACK asize 0);
                  st = PUT_NOTAG st (FTRP st ptr) (PACK asize 0);
                  st = PUT_NOTAG st (HDRP (NEXT_BLKP st ptr)) (PACK 0 1)
              in case insert_node st ptr asize of None \<Rightarrow> None
                 | Some st \<Rightarrow> coalesce st ptr))"

definition place :: "mstate \<Rightarrow> addr \<Rightarrow> word32 \<Rightarrow> (mstate \<times> addr) option" where
  "place st ptr asize =
     (let ptr_size = GET_SIZE st (HDRP ptr);
          remainder = ptr_size - asize;
          st = delete_node st ptr
      in if remainder \<le> DSIZE * 2 then
           (let st = PUT_NOTAG st (HDRP ptr) (PACK ptr_size 1);
                st = PUT_NOTAG st (FTRP st ptr) (PACK ptr_size 1)
            in Some (st, ptr))
         else if asize \<ge> 73 then
           (let st = PUT_NOTAG st (HDRP ptr) (PACK remainder 0);
                st = PUT_NOTAG st (FTRP st ptr) (PACK remainder 0);
                st = PUT_NOTAG st (HDRP (NEXT_BLKP st ptr)) (PACK asize 1);
                st = PUT_NOTAG st (FTRP st (NEXT_BLKP st ptr)) (PACK asize 1)
            in case insert_node st ptr remainder of None \<Rightarrow> None
               | Some st \<Rightarrow> Some (st, NEXT_BLKP st ptr))
         else
           (let st = PUT_NOTAG st (HDRP ptr) (PACK asize 1);
                st = PUT_NOTAG st (FTRP st ptr) (PACK asize 1);
                st = PUT_NOTAG st (HDRP (NEXT_BLKP st ptr)) (PACK remainder 0);
                st = PUT_NOTAG st (FTRP st (NEXT_BLKP st ptr)) (PACK remainder 0)
            in case insert_node st (NEXT_BLKP st ptr) remainder of None \<Rightarrow> None
               | Some st \<Rightarrow> Some (st, ptr)))"

section \<open>The public operations\<close>

text \<open>\<^verbatim>\<open>mm_init\<close> returns \<open>0\<close>, or \<open>-1\<close> when the arena cannot be set up.\<close>

definition mm_init :: "mstate \<Rightarrow> (mstate \<times> int) option" where
  "mm_init st =
     (let st = fold (\<lambda>lst st. set_list st lst NULL) [0..<LISTLIMIT] st
      in case mem_sbrk st (4 * WSIZE) of (st, heap_start) \<Rightarrow>
           if heap_start = - 1 then Some (st, - 1)
           else
             (let st = PUT_NOTAG st heap_start 0;
                  st = PUT_NOTAG st (heap_start + 1 * WSIZE) (PACK DSIZE 1);
                  st = PUT_NOTAG st (heap_start + 2 * WSIZE) (PACK DSIZE 1);
                  st = PUT_NOTAG st (heap_start + 3 * WSIZE) (PACK 0 1)
              in case extend_heap st INITCHUNKSIZE of None \<Rightarrow> None
                 | Some (st, p) \<Rightarrow> if p = NULL then Some (st, - 1) else Some (st, 0)))"

text \<open>
  The inner loop of \<^verbatim>\<open>mm_malloc\<close> walks one bucket along \<^verbatim>\<open>PRED\<close> until a block
  is large enough; like the search of \<^verbatim>\<open>insert_node\<close> it need not end on a cyclic list.
\<close>

partial_function (option) fit_search :: "mstate \<Rightarrow> word32 \<Rightarrow> addr \<Rightarrow> addr option" where
  "fit_search st asize ptr =
     (if ptr \<noteq> NULL \<and> asize > GET_SIZE st (HDRP ptr)
      then fit_search st asize (PRED st ptr)
      else Some ptr)"

declare fit_search.simps [code]

text \<open>The outer loop \<^verbatim>\<open>while (list < LISTLIMIT)\<close> with its \<^verbatim>\<open>break\<close>.\<close>

function find_list :: "mstate \<Rightarrow> word32 \<Rightarrow> nat \<Rightarrow> word32 \<Rightarrow> addr \<Rightarrow> addr option" where
  "find_list st asize lst searchsize ptr =
     (if lst < LISTLIMIT then
        (if lst = LISTLIMIT - 1 \<or> (searchsize \<le> 1 \<and> segregated_free_lists st lst \<noteq> NULL) then
           (case fit_search st asize (segregated_free_lists st lst) of
              None \<Rightarrow> None
            | Some ptr' \<Rightarrow>
                if ptr' \<noteq> NULL then Some ptr'
                else find_list st asize (lst + 1) (drop_bit 1 searchsize) ptr')
         else find_list st asize (lst + 1) (drop_bit 1 searchsize) ptr)
      else Some ptr)"
  by pat_completeness auto
termination
  by (relation "measure (\<lambda>(st, asize, lst, searchsize, ptr). LISTLIMIT - lst)") auto

declare find_list.simps [simp del]

text \<open>
  The adjusted block size that \<^verbatim>\<open>mm_malloc\<close> and \<^verbatim>\<open>mm_realloc\<close> both compute first:
  \<^verbatim>\<open>if (size <= DSIZE) asize = 2 * DSIZE; else asize = ALIGN(size + DSIZE);\<close>
  The sum is a \<^verbatim>\<open>size_t\<close> and wraps around.
\<close>

definition adjust_size :: "word32 \<Rightarrow> word32" where
  "adjust_size sz = (if sz \<le> DSIZE then 2 * DSIZE else ALIGN (sz + DSIZE))"

definition mm_malloc :: "mstate \<Rightarrow> word32 \<Rightarrow> (mstate \<times> addr) option" where
  "mm_malloc st sz =
     (if sz = 0 then Some (st, NULL)
      else
        (let asize = adjust_size sz
         in case find_list st asize 0 asize NULL of
              None \<Rightarrow> None
            | Some ptr \<Rightarrow>
                if ptr = NULL then
                  (let extendsize = max asize CHUNKSIZE
                   in case extend_heap st extendsize of
                        None \<Rightarrow> None
                      | Some (st, ptr) \<Rightarrow>
                          if ptr = NULL then Some (st, NULL) else place st ptr asize)
                else place st ptr asize))"

definition mm_free :: "mstate \<Rightarrow> addr \<Rightarrow> mstate option" where
  "mm_free st ptr =
     (let sz = GET_SIZE st (HDRP ptr);
          st = PUT_NOTAG st (HDRP ptr) (PACK sz 0);
          st = PUT_NOTAG st (FTRP st ptr) (PACK sz 0)
      in case insert_node st ptr sz of None \<Rightarrow> None
         | Some st \<Rightarrow> (case coalesce st ptr of None \<Rightarrow> None | Some (st, p) \<Rightarrow> Some st))"

text \<open>
  \<^verbatim>\<open>memcpy(dst, src, n)\<close> on the word-addressed arena of a little-endian machine: the
  first \<open>n div 4\<close> words are copied whole, and of the last word the low \<open>n mod 4\<close>
  bytes. The source is read as it was before the call (the two regions of a
  \<^verbatim>\<open>memcpy\<close> do not overlap).
\<close>

definition memcpy :: "mstate \<Rightarrow> addr \<Rightarrow> addr \<Rightarrow> word32 \<Rightarrow> mstate" where
  "memcpy st dst src n =
     (let h = heap st; k = unat n div 4; r = unat n mod 4;
          h1 = fold (\<lambda>i g. g(dst + word_of_nat (4 * i) := h (src + word_of_nat (4 * i))))
                 [0..<k] h;
          h2 = (if r = 0 then h1
                else h1(dst + word_of_nat (4 * k) :=
                          (h (src + word_of_nat (4 * k)) AND mask (8 * r)) OR
                          (h (dst + word_of_nat (4 * k)) AND NOT (mask (8 * r)))))
      in st\<lparr>heap := h2\<rparr>)"

text \<open>
  The statements of \<^verbatim>\<open>mm_realloc\<close> that follow the optional heap extension: the
  next block is unlinked and the block at \<open>ptr\<close> takes the whole space.
\<close>

definition realloc_absorb :: "mstate \<Rightarrow> addr \<Rightarrow> word32 \<Rightarrow> word32 \<Rightarrow> (mstate \<times> addr) option" where
  "realloc_absorb st ptr new_size remainder =
     (let st = delete_node st (NEXT_BLKP st ptr);
          st = PUT_NOTAG st (HDRP ptr) (PACK (new_size + remainder) 1);
          st = PUT_NOTAG st (FTRP st ptr) (PACK (new_size + remainder) 1)
      in Some (st, ptr))"

text \<open>
  \<^verbatim>\<open>block_buffer\<close>, \<^verbatim>\<open>remainder\<close> and \<^verbatim>\<open>extendsize\<close> are \<^verbatim>\<open>int\<close>: the unsigned
  difference is converted, and the tests \<^verbatim>\<open>< 0\<close> and \<^verbatim>\<open>MAX\<close> are signed. When
  \<^verbatim>\<open>mm_malloc\<close> returns \<open>NULL\<close> the \<^verbatim>\<open>memcpy\<close> to address 0 faults and the call
  does not return. The last assignment to \<^verbatim>\<open>block_buffer\<close> is never read and has no
  counterpart here.
\<close>

definition mm_realloc :: "mstate \<Rightarrow> addr \<Rightarrow> word32 \<Rightarrow> (mstate \<times> addr) option" where
  "mm_realloc st ptr sz =
     (if sz = 0 then Some (st, NULL)
      else
        (let new_size = adjust_size sz;
             new_size = new_size + REALLOC_BUFFER;
             block_buffer = GET_SIZE st (HDRP ptr) - new_size
         in if sint block_buffer < 0 then
              (if GET_ALLOC st (HDRP (NEXT_BLKP st ptr)) = 0
                  \<or> GET_SIZE st (HDRP (NEXT_BLKP st ptr)) = 0 then
                 (let remainder = GET_SIZE st (HDRP ptr)
                        + GET_SIZE st (HDRP (NEXT_BLKP st ptr)) - new_size
                  in if sint remainder < 0 then
                       (let extendsize =
                              (if sint (- remainder) > sint CHUNKSIZE then - remainder
                               else CHUNKSIZE)
                        in case extend_heap st extendsize of
                             None \<Rightarrow> None
                           | Some (st, p) \<Rightarrow>
                               if p = NULL then Some (st, NULL)
                               else realloc_absorb st ptr new_size (remainder + extendsize))
                     else realloc_absorb st ptr new_size remainder)
               else
                 (case mm_malloc st (new_size - DSIZE) of
                    None \<Rightarrow> None
                  | Some (st, new_ptr) \<Rightarrow>
                      if new_ptr = NULL then None
                      else
                        (let st = memcpy st new_ptr ptr (min sz new_size)
                         in case mm_free st ptr of None \<Rightarrow> None
                            | Some st \<Rightarrow> Some (st, new_ptr))))
            else Some (st, ptr)))"

section \<open>Well-formed bucket lists\<close>

text \<open>
  A bucket list as the allocator walks it: from the bucket head along the \<^verbatim>\<open>PRED\<close>
  links through the blocks \<open>ns\<close> to \<open>NULL\<close>.
\<close>

fun pred_chain :: "mstate \<Rightarrow> addr \<Rightarrow> addr list \<Rightarrow> bool" where
  "pred_chain st x [] \<longleftrightarrow> x = NULL"
| "pred_chain st x (n # ns) \<longleftrightarrow> x = n \<and> n \<noteq> NULL \<and> pred_chain st (PRED st n) ns"

text \<open>
  The same walk with the back links checked: the \<^verbatim>\<open>SUCC\<close> link of every block is the
  block before it in the walk, \<open>s\<close> for the first one (\<open>NULL\<close> at the bucket head).
\<close>

fun bucket_chain :: "mstate \<Rightarrow> addr \<Rightarrow> addr \<Rightarrow> addr list \<Rightarrow> bool" where
  "bucket_chain st s x [] \<longleftrightarrow> x = NULL"
| "bucket_chain st s x (n # ns) \<longleftrightarrow>
     x = n \<and> n \<noteq> NULL \<and> SUCC st n = s \<and> bucket_chain st n (PRED st n) ns"

text \<open>
  The two link words of the block \<open>n\<close> (at \<open>n\<close> and \<open>n + 4\<close>) are neither the header
  nor a link word of the block \<open>ptr\<close> (at \<open>ptr - 4\<close>, \<open>ptr\<close> and \<open>ptr + 4\<close>).
\<close>

definition clear_of :: "addr \<Rightarrow> addr \<Rightarrow> bool" where
  "clear_of ptr n \<longleftrightarrow> n \<noteq> ptr - 8 \<and> n \<noteq> ptr - 4 \<and> n \<noteq> ptr \<and> n \<noteq> ptr + 4"

text \<open>The address \<open>a\<close> lies in the block of \<open>ptr\<close>, from its header to its footer.\<close>

definition in_block :: "mstate \<Rightarrow> addr \<Rightarrow> addr \<Rightarrow> bool" where
  "in_block st ptr a \<longleftrightarrow> a - HDRP ptr < GET_SIZE st (HDRP ptr)"

text \<open>\<^verbatim>\<open>insert_node(ptr, size(ptr))\<close> immediately followed by \<^verbatim>\<open>delete_node(ptr)\<close>.\<close>

definition insert_delete :: "mstate \<Rightarrow> addr \<Rightarrow> mstate option" where
  "insert_delete st ptr =
     (case insert_node st ptr (GET_SIZE st (HDRP ptr)) of
        None \<Rightarrow> None
      | Some st \<Rightarrow> Some (delete_node st ptr))"

section \<open>Observations and concrete arenas\<close>

text \<open>What a call that returns a state and a pointer left behind: the pointer, and a word of the arena.\<close>

definition ptr_after :: "(mstate \<times> addr) option \<Rightarrow> addr option" where
  "ptr_after r = map_option snd r"

definition word_after :: "(mstate \<times> addr) option \<Rightarrow> addr \<Rightarrow> word32 option" where
  "word_after r a = map_option (\<lambda>(st, p). GET st a) r"

definition list_after :: "mstate option \<Rightarrow> nat \<Rightarrow> addr option" where
  "list_after r k = map_option (\<lambda>st. segregated_free_lists st k) r"

definition heap_after :: "mstate option \<Rightarrow> addr \<Rightarrow> word32 option" where
  "heap_after r a = map_option (\<lambda>st. GET st a) r"

text \<open>
  An arena of 20 MiB at address \<open>0x10000\<close> on which nothing has been written yet, as
  \<^verbatim>\<open>mem_init\<close> leaves it.
\<close>

definition empty_arena :: mstate where
  "empty_arena =
     \<lparr>heap = (\<lambda>_. 0), segregated_free_lists = (\<lambda>_. NULL),
      mem_brk = 0x10000, mem_max_addr = 0x1410000\<rparr>"

text \<open>
  The same on a host that gives the allocator the addresses from \<open>0x10000\<close> up to
  \<open>0x90000000\<close>, a little less than 2.25 GiB: large enough for one block of more than
  \<open>2^31\<close> bytes.
\<close>

definition large_arena :: mstate where
  "large_arena =
     \<lparr>heap = (\<lambda>_. 0), segregated_free_lists = (\<lambda>_. NULL),
      mem_brk = 0x10000, mem_max_addr = 0x90000000\<rparr>"

text \<open>
  The arena with the prologue, one free block of size \<open>sz\<close> at \<open>0x10010\<close> that is the
  only entry of bucket \<open>k\<close>, and the epilogue.
\<close>

definition free_block_arena :: "word32 \<Rightarrow> nat \<Rightarrow> mstate" where
  "free_block_arena sz k =
     \<lparr>heap = (\<lambda>_. 0)(0x10004 := 9, 0x10008 := 9, 0x1000C := sz,
                       0x10008 + sz := sz, 0x1000C + sz := 1),
      segregated_free_lists = (\<lambda>_. NULL)(k := 0x10010),
      mem_brk = 0x10010 + sz, mem_max_addr = 0x1410000\<rparr>"

text \<open>The arena with the prologue, one allocated block of size \<open>sz\<close> at \<open>0x10010\<close> and the epilogue.\<close>

definition used_block_arena :: "word32 \<Rightarrow> mstate" where
  "used_block_arena sz =
     \<lparr>heap = (\<lambda>_. 0)(0x10004 := 9, 0x10008 := 9, 0x1000C := sz OR 1,
                       0x10008 + sz := sz OR 1, 0x1000C + sz := 1),
      segregated_free_lists = (\<lambda>_. NULL),
      mem_brk = 0x10010 + sz, mem_max_addr = 0x1410000\<rparr>"

text \<open>
  The arena with a free block of 48 bytes at \<open>0x10010\<close> that is in no list, an
  allocated block of 16 bytes at \<open>0x10040\<close>, and a free block of 32 bytes at \<open>0x10050\<close>
  that is the only entry of bucket 5.
\<close>

definition two_node_arena :: mstate where
  "two_node_arena =
     \<lparr>heap = (\<lambda>_. 0)(0x10004 := 9, 0x10008 := 9,
                       0x1000C := 48, 0x10038 := 48,
                       0x1003C := 17, 0x10048 := 17,
                       0x1004C := 32, 0x10068 := 32,
                       0x1006C := 1),
      segregated_free_lists = (\<lambda>_. NULL)(5 := 0x10050),
      mem_brk = 0x10070, mem_max_addr = 0x1410000\<rparr>"

text \<open>
  The arena with a free block of 4096 bytes at \<open>0x10010\<close> (bucket 12), an allocated
  block of 16 bytes at \<open>0x11010\<close>, and a free block of 2048 bytes at \<open>0x11020\<close> (bucket 11).
\<close>

definition two_free_arena :: mstate where
  "two_free_arena =
     \<lparr>heap = (\<lambda>_. 0)(0x10004 := 9, 0x10008 := 9,
                       0x1000C := 4096, 0x11008 := 4096,
                       0x1100C := 17, 0x11018 := 17,
                       0x1101C := 2048, 0x11818 := 2048,
                       0x1181C := 1),
      segregated_free_lists = (\<lambda>_. NULL)(12 := 0x10010, 11 := 0x11020),
      mem_brk = 0x11820, mem_max_addr = 0x1410000\<rparr>"

section \<open>Runs of the public operations\<close>

text \<open>
  The blocks of the arena in address order, as a heap checker finds them: from the
  block \<open>bp\<close> each header leads to the next block, up to a header of size 0 (the
  epilogue). On a corrupted arena the walk need not end.
\<close>

partial_function (option) heap_walk :: "mstate \<Rightarrow> addr \<Rightarrow> addr list option" where
  "heap_walk st bp =
     (if GET_SIZE st (HDRP bp) = 0 then Some []
      else do { bs \<leftarrow> heap_walk st (NEXT_BLKP st bp); Some (bp # bs) })"

text \<open>Two consecutive blocks of the list are both free.\<close>

fun adjacent_free :: "mstate \<Rightarrow> addr list \<Rightarrow> bool" where
  "adjacent_free st (a # b # bs) \<longleftrightarrow>
     (GET_ALLOC st (HDRP a) = 0 \<and> GET_ALLOC st (HDRP b) = 0) \<or> adjacent_free st (b # bs)"
| "adjacent_free st bs \<longleftrightarrow> False"

definition block_tags :: "mstate \<Rightarrow> addr list \<Rightarrow> word32 list" where
  "block_tags st bs = map (\<lambda>bp. GET st (HDRP bp)) bs"

definition chain_sizes :: "mstate \<Rightarrow> addr list \<Rightarrow> word32 list" where
  "chain_sizes st ns = map (\<lambda>n. GET_SIZE st (HDRP n)) ns"

text \<open>The caller of the allocator writes a word into a payload it owns.\<close>

definition caller_store :: "mstate \<Rightarrow> addr \<Rightarrow> word32 \<Rightarrow> mstate" where
  "caller_store st a v = st\<lparr>heap := (heap st)(a := v)\<rparr>"

text \<open>The byte at address \<open>a\<close> of the little-endian arena.\<close>

definition byte_at :: "mstate \<Rightarrow> addr \<Rightarrow> 8 word" where
  "byte_at st a = ucast (drop_bit (8 * unat (a AND 3)) (heap st (a AND NOT 3)))"

text \<open>
  Runs of the public operations, four on the empty arena of 20 MiB and one on the
  large arena. Each is given as the sequence of calls; the arenas between the calls
  are written out below.
\<close>

definition overflow_malloc :: "(mstate \<times> addr) option" where
  "overflow_malloc = do {
     (st, r) \<leftarrow> mm_init empty_arena;
     mm_malloc st 0xFFFFFFFF
   }"

definition before_resize :: "(mstate \<times> addr) option" where
  "before_resize = do {
     (st, r) \<leftarrow> mm_init empty_arena;
     (st, p) \<leftarrow> mm_malloc st 8;
     (st, y) \<leftarrow> mm_malloc st 4136;
     (st, t) \<leftarrow> mm_malloc st 4064;
     st \<leftarrow> mm_free st t;
     Some (st, p)
   }"

definition after_resize :: "(mstate \<times> addr) option" where
  "after_resize = do {
     (st, p) \<leftarrow> before_resize;
     mm_realloc st p 4096
   }"

definition one_free :: "(mstate \<times> addr) option" where
  "one_free = do {
     (st, r) \<leftarrow> mm_init empty_arena;
     (st, a) \<leftarrow> mm_malloc st 24;
     (st, b) \<leftarrow> mm_malloc st 8;
     (st, c) \<leftarrow> mm_malloc st 40;
     (st, d) \<leftarrow> mm_malloc st 8;
     st \<leftarrow> mm_free st a;
     Some (st, c)
   }"

definition two_frees :: "mstate option" where
  "two_frees = do {
     (st, c) \<leftarrow> one_free;
     mm_free st c
   }"

definition before_overflow_resize :: "(mstate \<times> addr) option" where
  "before_overflow_resize = do {
     (st, r) \<leftarrow> mm_init empty_arena;
     (st, a1) \<leftarrow> mm_malloc st 56;
     (st, a2) \<leftarrow> mm_malloc st 56;
     (st, p) \<leftarrow> mm_malloc st 8;
     (st, y1) \<leftarrow> mm_malloc st 56;
     (st, y2) \<leftarrow> mm_malloc st 56;
     st \<leftarrow> Some (caller_store (caller_store (caller_store (caller_store st
              p 0x41414141) (p + 4) 0x41414141) (y2 + 40) 0x80) (y2 + 44) 0xFFFFFF88);
     st \<leftarrow> mm_free st a1;
     st \<leftarrow> mm_free st a2;
     Some (st, p)
   }"

definition after_overflow_resize :: "(mstate \<times> addr) option" where
  "after_overflow_resize = do {
     (st, p) \<leftarrow> before_overflow_resize;
     mm_realloc st p 0xFFFFFFF8
   }"

definition before_shrink :: "(mstate \<times> addr) option" where
  "before_shrink = do {
     (st, r) \<leftarrow> mm_init large_arena;
     (st, p) \<leftarrow> mm_malloc st 0x7FFFFF00;
     (st, p) \<leftarrow> mm_realloc st p 0x80000100;
     (st, z) \<leftarrow> mm_malloc st 64;
     Some (st, p)
   }"

definition after_shrink :: "(mstate \<times> addr) option" where
  "after_shrink = do {
     (st, p) \<leftarrow> before_shrink;
     mm_realloc st p 8
   }"

text \<open>The arena after \<^verbatim>\<open>mm_init\<close>: the prologue, one free block of 64 bytes at \<open>0x10010\<close> in bucket 6, the epilogue.\<close>

definition fresh_heap :: mstate where
  "fresh_heap =
     \<lparr>heap = (\<lambda>_. 0)(0x10004 := 0x9, 0x10008 := 0x9, 0x1000C := 0x40, 0x10048 := 0x40,
                        0x1004C := 0x1),
      segregated_free_lists = (\<lambda>_. NULL)(6 := 0x10010),
      mem_brk = 0x10050, mem_max_addr = 0x1410000\<rparr>"

subsection \<open>A request of \<open>2^32 - 1\<close> bytes\<close>

text \<open>After \<^verbatim>\<open>p = mm_malloc(0xFFFFFFFF)\<close>, which returns \<open>0x10010\<close>. Blocks (size, a = allocated, f = free): 8a at 0x10010, 56f at 0x10018.\<close>

definition ovf1 :: mstate where
  "ovf1 =
     \<lparr>heap = (\<lambda>_. 0)(0x10004 := 0x9, 0x10008 := 0x9, 0x1000C := 0x9, 0x10010 := 0x9,
                        0x10014 := 0x38, 0x10048 := 0x38, 0x1004C := 0x1),
      segregated_free_lists = (\<lambda>_. NULL)(5 := 0x10018),
      mem_brk = 0x10050, mem_max_addr = 0x1410000\<rparr>"

subsection \<open>Growing a block whose free neighbour is not the last block\<close>

text \<open>After \<^verbatim>\<open>p = mm_malloc(8)\<close>, which returns \<open>0x10010\<close>. Blocks (size, a = allocated, f = free): 16a at 0x10010, 48f at 0x10020.\<close>

definition rz1 :: mstate where
  "rz1 =
     \<lparr>heap = (\<lambda>_. 0)(0x10004 := 0x9, 0x10008 := 0x9, 0x1000C := 0x11, 0x10018 := 0x11,
                        0x1001C := 0x30, 0x10048 := 0x30, 0x1004C := 0x1),
      segregated_free_lists = (\<lambda>_. NULL)(5 := 0x10020),
      mem_brk = 0x10050, mem_max_addr = 0x1410000\<rparr>"

text \<open>After \<^verbatim>\<open>y = mm_malloc(4136)\<close>, which returns \<open>0x10050\<close>. Blocks (size, a = allocated, f = free): 16a at 0x10010, 48f at 0x10020, 4144a at 0x10050.\<close>

definition rz2 :: mstate where
  "rz2 =
     \<lparr>heap = (\<lambda>_. 0)(0x10004 := 0x9, 0x10008 := 0x9, 0x1000C := 0x11, 0x10018 := 0x11,
                        0x1001C := 0x30, 0x10048 := 0x30, 0x1004C := 0x1031, 0x11078 := 0x1031,
                        0x1107C := 0x1),
      segregated_free_lists = (\<lambda>_. NULL)(5 := 0x10020),
      mem_brk = 0x11080, mem_max_addr = 0x1410000\<rparr>"

text \<open>After \<^verbatim>\<open>t = mm_malloc(4064)\<close>, which returns \<open>0x11098\<close>. Blocks (size, a = allocated, f = free): 16a at 0x10010, 48f at 0x10020, 4144a at 0x10050, 24f at 0x11080, 4072a at 0x11098.\<close>

definition rz3 :: mstate where
  "rz3 =
     \<lparr>heap = (\<lambda>_. 0)(0x10004 := 0x9, 0x10008 := 0x9, 0x1000C := 0x11, 0x10018 := 0x11,
                        0x1001C := 0x30, 0x10048 := 0x30, 0x1004C := 0x1031, 0x11078 := 0x1031,
                        0x1107C := 0x18, 0x11090 := 0x18, 0x11094 := 0xFE9, 0x12078 := 0xFE9,
                        0x1207C := 0x1),
      segregated_free_lists = (\<lambda>_. NULL)(4 := 0x11080, 5 := 0x10020),
      mem_brk = 0x12080, mem_max_addr = 0x1410000\<rparr>"

text \<open>After \<^verbatim>\<open>mm_free(t)\<close>. Blocks (size, a = allocated, f = free): 16a at 0x10010, 48f at 0x10020, 4144a at 0x10050, 4096f at 0x11080.\<close>

definition rz4 :: mstate where
  "rz4 =
     \<lparr>heap = (\<lambda>_. 0)(0x10004 := 0x9, 0x10008 := 0x9, 0x1000C := 0x11, 0x10018 := 0x11,
                        0x1001C := 0x30, 0x10048 := 0x30, 0x1004C := 0x1031, 0x11078 := 0x1031,
                        0x1107C := 0x1000, 0x11090 := 0x18, 0x11094 := 0xFE8, 0x12078 := 0x1000,
                        0x1207C := 0x1),
      segregated_free_lists = (\<lambda>_. NULL)(5 := 0x10020, 12 := 0x11080),
      mem_brk = 0x12080, mem_max_addr = 0x1410000\<rparr>"

text \<open>After \<^verbatim>\<open>mm_realloc(p, 4096)\<close>, which returns \<open>0x10010\<close>.\<close>

definition rz5 :: mstate where
  "rz5 =
     \<lparr>heap = (\<lambda>_. 0)(0x10004 := 0x9, 0x10008 := 0x9, 0x1000C := 0x1089, 0x10018 := 0x11,
                        0x1001C := 0x30, 0x10048 := 0x30, 0x1004C := 0x1031, 0x11078 := 0x1031,
                        0x1107C := 0x2048, 0x11090 := 0x1089, 0x11094 := 0xFE8, 0x12078 := 0x1000,
                        0x1207C := 0x1048, 0x12080 := 0x11080, 0x130C0 := 0x2048, 0x130C4 := 0x1),
      segregated_free_lists = (\<lambda>_. NULL)(13 := 0x11080),
      mem_brk = 0x130C8, mem_max_addr = 0x1410000\<rparr>"

subsection \<open>Two blocks of one size class freed in ascending order of size\<close>

text \<open>After \<^verbatim>\<open>a = mm_malloc(24)\<close>, which returns \<open>0x10010\<close>. Blocks (size, a = allocated, f = free): 32a at 0x10010, 32f at 0x10030.\<close>

definition fr1 :: mstate where
  "fr1 =
     \<lparr>heap = (\<lambda>_. 0)(0x10004 := 0x9, 0x10008 := 0x9, 0x1000C := 0x21, 0x10028 := 0x21,
                        0x1002C := 0x20, 0x10048 := 0x20, 0x1004C := 0x1),
      segregated_free_lists = (\<lambda>_. NULL)(5 := 0x10030),
      mem_brk = 0x10050, mem_max_addr = 0x1410000\<rparr>"

text \<open>After \<^verbatim>\<open>b = mm_malloc(8)\<close>, which returns \<open>0x10030\<close>. Blocks (size, a = allocated, f = free): 32a at 0x10010, 32a at 0x10030.\<close>

definition fr2 :: mstate where
  "fr2 =
     \<lparr>heap = (\<lambda>_. 0)(0x10004 := 0x9, 0x10008 := 0x9, 0x1000C := 0x21, 0x10028 := 0x21,
                        0x1002C := 0x21, 0x10048 := 0x21, 0x1004C := 0x1),
      segregated_free_lists = (\<lambda>_. NULL),
      mem_brk = 0x10050, mem_max_addr = 0x1410000\<rparr>"

text \<open>After \<^verbatim>\<open>c = mm_malloc(40)\<close>, which returns \<open>0x10050\<close>. Blocks (size, a = allocated, f = free): 32a at 0x10010, 32a at 0x10030, 48a at 0x10050, 4048f at 0x10080.\<close>

definition fr3 :: mstate where
  "fr3 =
     \<lparr>heap = (\<lambda>_. 0)(0x10004 := 0x9, 0x10008 := 0x9, 0x1000C := 0x21, 0x10028 := 0x21,
                        0x1002C := 0x21, 0x10048 := 0x21, 0x1004C := 0x31, 0x10078 := 0x31,
                        0x1007C := 0xFD0, 0x11048 := 0xFD0, 0x1104C := 0x1),
      segregated_free_lists = (\<lambda>_. NULL)(11 := 0x10080),
      mem_brk = 0x11050, mem_max_addr = 0x1410000\<rparr>"

text \<open>After \<^verbatim>\<open>d = mm_malloc(8)\<close>, which returns \<open>0x10080\<close>. Blocks (size, a = allocated, f = free): 32a at 0x10010, 32a at 0x10030, 48a at 0x10050, 16a at 0x10080, 4032f at 0x10090.\<close>

definition fr4 :: mstate where
  "fr4 =
     \<lparr>heap = (\<lambda>_. 0)(0x10004 := 0x9, 0x10008 := 0x9, 0x1000C := 0x21, 0x10028 := 0x21,
                        0x1002C := 0x21, 0x10048 := 0x21, 0x1004C := 0x31, 0x10078 := 0x31,
                        0x1007C := 0x11, 0x10088 := 0x11, 0x1008C := 0xFC0, 0x11048 := 0xFC0,
                        0x1104C := 0x1),
      segregated_free_lists = (\<lambda>_. NULL)(11 := 0x10090),
      mem_brk = 0x11050, mem_max_addr = 0x1410000\<rparr>"

text \<open>After \<^verbatim>\<open>mm_free(a)\<close>. Blocks (size, a = allocated, f = free): 32f at 0x10010, 32a at 0x10030, 48a at 0x10050, 16a at 0x10080, 4032f at 0x10090.\<close>

definition fr5 :: mstate where
  "fr5 =
     \<lparr>heap = (\<lambda>_. 0)(0x10004 := 0x9, 0x10008 := 0x9, 0x1000C := 0x20, 0x10028 := 0x20,
                        0x1002C := 0x21, 0x10048 := 0x21, 0x1004C := 0x31, 0x10078 := 0x31,
                        0x1007C := 0x11, 0x10088 := 0x11, 0x1008C := 0xFC0, 0x11048 := 0xFC0,
                        0x1104C := 0x1),
      segregated_free_lists = (\<lambda>_. NULL)(5 := 0x10010, 11 := 0x10090),
      mem_brk = 0x11050, mem_max_addr = 0x1410000\<rparr>"

text \<open>After \<^verbatim>\<open>mm_free(c)\<close>. Blocks (size, a = allocated, f = free): 32f at 0x10010, 32a at 0x10030, 48f at 0x10050, 16a at 0x10080, 4032f at 0x10090.\<close>

definition fr6 :: mstate where
  "fr6 =
     \<lparr>heap = (\<lambda>_. 0)(0x10004 := 0x9, 0x10008 := 0x9, 0x1000C := 0x20, 0x10014 := 0x10050,
                        0x10028 := 0x20, 0x1002C := 0x21, 0x10048 := 0x21, 0x1004C := 0x30,
                        0x10050 := 0x10010, 0x10078 := 0x30, 0x1007C := 0x11, 0x10088 := 0x11,
                        0x1008C := 0xFC0, 0x11048 := 0xFC0, 0x1104C := 0x1),
      segregated_free_lists = (\<lambda>_. NULL)(5 := 0x10050, 11 := 0x10090),
      mem_brk = 0x11050, mem_max_addr = 0x1410000\<rparr>"

subsection \<open>Resizing to \<open>2^32 - 8\<close> bytes\<close>

text \<open>After \<^verbatim>\<open>a1 = mm_malloc(56)\<close>, which returns \<open>0x10010\<close>. Blocks (size, a = allocated, f = free): 64a at 0x10010.\<close>

definition ov1 :: mstate where
  "ov1 =
     \<lparr>heap = (\<lambda>_. 0)(0x10004 := 0x9, 0x10008 := 0x9, 0x1000C := 0x41, 0x10048 := 0x41,
                        0x1004C := 0x1),
      segregated_free_lists = (\<lambda>_. NULL),
      mem_brk = 0x10050, mem_max_addr = 0x1410000\<rparr>"

text \<open>After \<^verbatim>\<open>a2 = mm_malloc(56)\<close>, which returns \<open>0x10050\<close>. Blocks (size, a = allocated, f = free): 64a at 0x10010, 64a at 0x10050, 4032f at 0x10090.\<close>

definition ov2 :: mstate where
  "ov2 =
     \<lparr>heap = (\<lambda>_. 0)(0x10004 := 0x9, 0x10008 := 0x9, 0x1000C := 0x41, 0x10048 := 0x41,
                        0x1004C := 0x41, 0x10088 := 0x41, 0x1008C := 0xFC0, 0x11048 := 0xFC0,
                        0x1104C := 0x1),
      segregated_free_lists = (\<lambda>_. NULL)(11 := 0x10090),
      mem_brk = 0x11050, mem_max_addr = 0x1410000\<rparr>"

text \<open>After \<^verbatim>\<open>p = mm_malloc(8)\<close>, which returns \<open>0x10090\<close>. Blocks (size, a = allocated, f = free): 64a at 0x10010, 64a at 0x10050, 16a at 0x10090, 4016f at 0x100A0.\<close>

definition ov3 :: mstate where
  "ov3 =
     \<lparr>heap = (\<lambda>_. 0)(0x10004 := 0x9, 0x10008 := 0x9, 0x1000C := 0x41, 0x10048 := 0x41,
                        0x1004C := 0x41, 0x10088 := 0x41, 0x1008C := 0x11, 0x10098 := 0x11,
                        0x1009C := 0xFB0, 0x11048 := 0xFB0, 0x1104C := 0x1),
      segregated_free_lists = (\<lambda>_. NULL)(11 := 0x100A0),
      mem_brk = 0x11050, mem_max_addr = 0x1410000\<rparr>"

text \<open>After \<^verbatim>\<open>y1 = mm_malloc(56)\<close>, which returns \<open>0x100A0\<close>. Blocks (size, a = allocated, f = free): 64a at 0x10010, 64a at 0x10050, 16a at 0x10090, 64a at 0x100A0, 3952f at 0x100E0.\<close>

definition ov4 :: mstate where
  "ov4 =
     \<lparr>heap = (\<lambda>_. 0)(0x10004 := 0x9, 0x10008 := 0x9, 0x1000C := 0x41, 0x10048 := 0x41,
                        0x1004C := 0x41, 0x10088 := 0x41, 0x1008C := 0x11, 0x10098 := 0x11,
                        0x1009C := 0x41, 0x100D8 := 0x41, 0x100DC := 0xF70, 0x11048 := 0xF70,
                        0x1104C := 0x1),
      segregated_free_lists = (\<lambda>_. NULL)(11 := 0x100E0),
      mem_brk = 0x11050, mem_max_addr = 0x1410000\<rparr>"

text \<open>After \<^verbatim>\<open>y2 = mm_malloc(56)\<close>, which returns \<open>0x100E0\<close>. Blocks (size, a = allocated, f = free): 64a at 0x10010, 64a at 0x10050, 16a at 0x10090, 64a at 0x100A0, 64a at 0x100E0, 3888f at 0x10120.\<close>

definition ov5 :: mstate where
  "ov5 =
     \<lparr>heap = (\<lambda>_. 0)(0x10004 := 0x9, 0x10008 := 0x9, 0x1000C := 0x41, 0x10048 := 0x41,
                        0x1004C := 0x41, 0x10088 := 0x41, 0x1008C := 0x11, 0x10098 := 0x11,
                        0x1009C := 0x41, 0x100D8 := 0x41, 0x100DC := 0x41, 0x10118 := 0x41,
                        0x1011C := 0xF30, 0x11048 := 0xF30, 0x1104C := 0x1),
      segregated_free_lists = (\<lambda>_. NULL)(11 := 0x10120),
      mem_brk = 0x11050, mem_max_addr = 0x1410000\<rparr>"

text \<open>After the caller has written the 8 bytes of its block \<open>p\<close> and two words of its block \<open>y2\<close>. Blocks (size, a = allocated, f = free): 64a at 0x10010, 64a at 0x10050, 16a at 0x10090, 64a at 0x100A0, 64a at 0x100E0, 3888f at 0x10120.\<close>

definition ov6 :: mstate where
  "ov6 =
     \<lparr>heap = (\<lambda>_. 0)(0x10004 := 0x9, 0x10008 := 0x9, 0x1000C := 0x41, 0x10048 := 0x41,
                        0x1004C := 0x41, 0x10088 := 0x41, 0x1008C := 0x11, 0x10090 := 0x41414141,
                        0x10094 := 0x41414141, 0x10098 := 0x11, 0x1009C := 0x41, 0x100D8 := 0x41,
                        0x100DC := 0x41, 0x10108 := 0x80, 0x1010C := 0xFFFFFF88, 0x10118 := 0x41,
                        0x1011C := 0xF30, 0x11048 := 0xF30, 0x1104C := 0x1),
      segregated_free_lists = (\<lambda>_. NULL)(11 := 0x10120),
      mem_brk = 0x11050, mem_max_addr = 0x1410000\<rparr>"

text \<open>After \<^verbatim>\<open>mm_free(a1)\<close>. Blocks (size, a = allocated, f = free): 64f at 0x10010, 64a at 0x10050, 16a at 0x10090, 64a at 0x100A0, 64a at 0x100E0, 3888f at 0x10120.\<close>

definition ov7 :: mstate where
  "ov7 =
     \<lparr>heap = (\<lambda>_. 0)(0x10004 := 0x9, 0x10008 := 0x9, 0x1000C := 0x40, 0x10048 := 0x40,
                        0x1004C := 0x41, 0x10088 := 0x41, 0x1008C := 0x11, 0x10090 := 0x41414141,
                        0x10094 := 0x41414141, 0x10098 := 0x11, 0x1009C := 0x41, 0x100D8 := 0x41,
                        0x100DC := 0x41, 0x10108 := 0x80, 0x1010C := 0xFFFFFF88, 0x10118 := 0x41,
                        0x1011C := 0xF30, 0x11048 := 0xF30, 0x1104C := 0x1),
      segregated_free_lists = (\<lambda>_. NULL)(6 := 0x10010, 11 := 0x10120),
      mem_brk = 0x11050, mem_max_addr = 0x1410000\<rparr>"

text \<open>After \<^verbatim>\<open>mm_free(a2)\<close>. Blocks (size, a = allocated, f = free): 128f at 0x10010, 16a at 0x10090, 64a at 0x100A0, 64a at 0x100E0, 3888f at 0x10120.\<close>

definition ov8 :: mstate where
  "ov8 =
     \<lparr>heap = (\<lambda>_. 0)(0x10004 := 0x9, 0x10008 := 0x9, 0x1000C := 0x80, 0x10048 := 0x40,
                        0x1004C := 0x40, 0x10050 := 0x10010, 0x10088 := 0x80, 0x1008C := 0x11,
                        0x10090 := 0x41414141, 0x10094 := 0x41414141, 0x10098 := 0x11, 0x1009C := 0x41,
                        0x100D8 := 0x41, 0x100DC := 0x41, 0x10108 := 0x80, 0x1010C := 0xFFFFFF88,
                        0x10118 := 0x41, 0x1011C := 0xF30, 0x11048 := 0xF30, 0x1104C := 0x1),
      segregated_free_lists = (\<lambda>_. NULL)(7 := 0x10010, 11 := 0x10120),
      mem_brk = 0x11050, mem_max_addr = 0x1410000\<rparr>"

text \<open>After \<^verbatim>\<open>mm_realloc(p, 0xFFFFFFF8)\<close>, which returns \<open>0x10010\<close>.\<close>

definition ov9 :: mstate where
  "ov9 =
     \<lparr>heap = (\<lambda>_. 0)(0x10004 := 0x9, 0x10008 := 0x9, 0x1000C := 0x81, 0x10010 := 0xFFFFFF88,
                        0x10014 := 0x41414141, 0x10018 := 0x11, 0x1001C := 0x41, 0x10058 := 0x41,
                        0x1005C := 0x41, 0x10088 := 0x80, 0x1008C := 0xFFFFFF88, 0x10098 := 0x11,
                        0x1009C := 0x41, 0x100D8 := 0x41, 0x100DC := 0x41, 0x10108 := 0x80,
                        0x1010C := 0xFFFFFF88, 0x10118 := 0x41, 0x1011C := 0xF30, 0x11048 := 0xF30,
                        0x1104C := 0x1),
      segregated_free_lists = (\<lambda>_. NULL)(11 := 0x10120, 19 := 0x10090),
      mem_brk = 0x11050, mem_max_addr = 0x1410000\<rparr>"

subsection \<open>Shrinking a block of more than \<open>2^31\<close> bytes\<close>

text \<open>The large arena after \<^verbatim>\<open>mm_init\<close>: the prologue, one free block of 64 bytes at \<open>0x10010\<close> in bucket 6, the epilogue.\<close>

definition fresh_large :: mstate where
  "fresh_large =
     \<lparr>heap = (\<lambda>_. 0)(0x10004 := 0x9, 0x10008 := 0x9, 0x1000C := 0x40, 0x10048 := 0x40,
                        0x1004C := 0x1),
      segregated_free_lists = (\<lambda>_. NULL)(6 := 0x10010),
      mem_brk = 0x10050, mem_max_addr = 0x90000000\<rparr>"

text \<open>After \<^verbatim>\<open>p = mm_malloc(0x7FFFFF00)\<close>, which extends the heap by \<open>0x7FFFFF08\<close> bytes and returns \<open>0x10050\<close>. Blocks (size, a = allocated, f = free): 0x40f at 0x10010, 0x7FFFFF08a at 0x10050.\<close>

definition lg1 :: mstate where
  "lg1 =
     \<lparr>heap = (\<lambda>_. 0)(0x10004 := 0x9, 0x10008 := 0x9, 0x1000C := 0x40, 0x10048 := 0x40,
                        0x1004C := 0x7FFFFF09, 0x8000FF50 := 0x7FFFFF09, 0x8000FF54 := 0x1),
      segregated_free_lists = (\<lambda>_. NULL)(6 := 0x10010),
      mem_brk = 0x8000FF58, mem_max_addr = 0x90000000\<rparr>"

text \<open>After \<^verbatim>\<open>mm_realloc(p, 0x80000100)\<close>, which extends the heap by 4096 bytes, grows the block in place and returns \<open>0x10050\<close>. Blocks (size, a = allocated, f = free): 0x40f at 0x10010, 0x80000F08a at 0x10050.\<close>

definition lg2 :: mstate where
  "lg2 =
     \<lparr>heap = (\<lambda>_. 0)(0x10004 := 0x9, 0x10008 := 0x9, 0x1000C := 0x40, 0x10048 := 0x40,
                        0x1004C := 0x80000F09, 0x8000FF50 := 0x7FFFFF09, 0x8000FF54 := 0x1000,
                        0x80010F50 := 0x80000F09, 0x80010F54 := 0x1),
      segregated_free_lists = (\<lambda>_. NULL)(6 := 0x10010),
      mem_brk = 0x80010F58, mem_max_addr = 0x90000000\<rparr>"

text \<open>After \<^verbatim>\<open>z = mm_malloc(64)\<close>, which extends the heap by 4096 bytes and returns \<open>0x80010F58\<close>. Blocks (size, a = allocated, f = free): 0x40f at 0x10010, 0x80000F08a at 0x10050, 0x48a at 0x80010F58, 0xFB8f at 0x80010FA0.\<close>

definition lg3 :: mstate where
  "lg3 =
     \<lparr>heap = (\<lambda>_. 0)(0x10004 := 0x9, 0x10008 := 0x9, 0x1000C := 0x40, 0x10048 := 0x40,
                        0x1004C := 0x80000F09, 0x8000FF50 := 0x7FFFFF09, 0x8000FF54 := 0x1000,
                        0x80010F50 := 0x80000F09, 0x80010F54 := 0x49, 0x80010F98 := 0x49,
                        0x80010F9C := 0xFB8, 0x80011F50 := 0xFB8, 0x80011F54 := 0x1),
      segregated_free_lists = (\<lambda>_. NULL)(6 := 0x10010, 11 := 0x80010FA0),
      mem_brk = 0x80011F58, mem_max_addr = 0x90000000\<rparr>"

text \<open>After \<^verbatim>\<open>mm_realloc(p, 8)\<close>, which returns \<open>0x80011EC8\<close>. Blocks (size, a = allocated, f = free): 0x80000F48f at 0x10010, 0x48a at 0x80010F58, 0xF28f at 0x80010FA0, 0x90a at 0x80011EC8.\<close>

definition lg4 :: mstate where
  "lg4 =
     \<lparr>heap = (\<lambda>_. 0)(0x10004 := 0x9, 0x10008 := 0x9, 0x1000C := 0x80000F48, 0x10048 := 0x40,
                        0x1004C := 0x80000F08, 0x8000FF50 := 0x7FFFFF09, 0x8000FF54 := 0x1000,
                        0x80010F50 := 0x80000F48, 0x80010F54 := 0x49, 0x80010F98 := 0x49,
                        0x80010F9C := 0xF28, 0x80011EC0 := 0xF28, 0x80011EC4 := 0x91,
                        0x80011F50 := 0x91, 0x80011F54 := 0x1),
      segregated_free_lists = (\<lambda>_. NULL)(11 := 0x80010FA0, 19 := 0x10010),
      mem_brk = 0x80011F58, mem_max_addr = 0x90000000\<rparr>"

section \<open>Facts about words\<close>

lemmas mm_defs = ALIGN_def PACK_def GET_def PUT_NOTAG_def SET_PTR_def GET_SIZE_def GET_ALLOC_def
  HDRP_def FTRP_def NEXT_BLKP_def PREV_BLKP_def PRED_PTR_def SUCC_PTR_def PRED_def SUCC_def
  set_list_def mem_sbrk_def insert_links_def insert_node_def delete_node_def coalesce_def
  extend_heap_def place_def mm_init_def adjust_size_def mm_malloc_def mm_free_def
  realloc_absorb_def mm_realloc_def Let_def
  select_list.simps insert_search.simps fit_search.simps find_list.simps

lemma minus8_mask: "(- 8 :: word32) = NOT (mask 3)"
  using minus_exp_eq_not_mask [of 3, where ?'a = word32] by simp

lemma size_tag_alloc: "((w AND - 8) OR 1) AND - 8 = (w AND - 8 :: word32)"
  unfolding minus8_mask by (rule bit_word_eqI) (auto simp: bit_simps)

lemma sized_ne_4: "(w AND - 8 :: word32) \<noteq> 4"
proof
  assume "w AND - 8 = 4"
  then have "bit (w AND NOT (mask 3)) 2 = bit (push_bit 2 1 :: word32) 2"
    by (simp add: minus8_mask)
  then show False by (simp add: bit_simps)
qed

lemma sint_nonneg: "uint (w :: word32) < 2147483648 \<Longrightarrow> 0 \<le> sint w"
proof -
  assume a: "uint w < 2147483648"
  have b: "- (2 ^ 31) \<le> uint w"
    by (rule order_trans [of _ 0]) simp_all
  have "signed_take_bit 31 (uint w) = uint w"
    by (rule signed_take_bit_int_eq_self [OF b]) (use a in simp)
  then have "sint w = uint w" by (simp only: sint_uint) simp
  then show ?thesis by simp
qed

lemma unat_drop_bit1: "unat (drop_bit 1 (sz::word32)) = unat sz div 2"
  by (simp add: drop_bit_eq_div unat_div)

lemma seven_mask: "(7 :: word32) = mask 3"
  by (simp add: mask_eq_exp_minus_1)

lemma and7_dvd: "(w AND 7 = 0) = (8 dvd (w :: word32))"
proof -
  have "w AND 7 = take_bit 3 w" by (simp add: take_bit_eq_mask seven_mask)
  then show ?thesis using take_bit_eq_0_iff [of 3 w] by simp
qed

lemma and_minus8_id: "8 dvd (w :: word32) \<Longrightarrow> w AND - 8 = w"
proof -
  assume "8 dvd w"
  then have "take_bit 3 w = 0" using take_bit_eq_0_iff [of 3 w] by simp
  then have z: "w AND mask 3 = 0" by (simp add: take_bit_eq_mask)
  have "w AND NOT (mask 3) = w"
  proof (rule bit_word_eqI)
    fix n assume n: "n < LENGTH(32)"
    have "\<not> bit (w AND mask 3) n" using z by simp
    then have "n < 3 \<Longrightarrow> \<not> bit w n" using n by (simp add: bit_simps)
    then show "bit (w AND NOT (mask 3)) n = bit w n"
      using n by (auto simp: bit_simps)
  qed
  then show ?thesis by (simp add: minus8_mask)
qed

lemma dvd_and_minus8: "8 dvd (w AND - 8 :: word32)"
proof -
  have "(w AND NOT (mask 3)) AND mask 3 = 0"
    by (rule bit_word_eqI) (auto simp: bit_simps)
  then have "(w AND - 8) AND 7 = 0" by (simp only: minus8_mask seven_mask)
  then show ?thesis by (simp only: and7_dvd)
qed

lemma or1_and_minus8: "8 dvd (w :: word32) \<Longrightarrow> (w OR 1) AND - 8 = w"
  using size_tag_alloc [of w] by (simp add: and_minus8_id)

section \<open>Bucket selection\<close>

lemma select_list_pow:
  "2 ^ k \<le> unat sz \<Longrightarrow> unat sz < 2 ^ (k + 1) \<Longrightarrow> lst \<le> 19 \<Longrightarrow>
   fst (select_list lst sz) = min 19 (lst + k)"
proof (induction k arbitrary: lst sz)
  case 0
  then have "unat sz = 1" by simp
  then have "unat sz = unat (1::word32)" by simp
  then have "sz = 1" by (simp only: word_unat_eq_iff)
  then show ?case using 0 by (subst select_list.simps) simp
next
  case (Suc k)
  have "(2::nat) ^ Suc k \<ge> 2" by simp
  then have "unat sz > 1" using Suc.prems(1) by linarith
  then have gt: "sz > 1" by (simp add: word_less_nat_alt)
  show ?case
  proof (cases "lst < 19")
    case True
    have lo: "2 ^ k \<le> unat (drop_bit 1 sz)"
      using Suc.prems(1) by (simp add: unat_drop_bit1 del: One_nat_def)
    have hi: "unat (drop_bit 1 sz) < 2 ^ (k + 1)"
      using Suc.prems(2) by (simp add: unat_drop_bit1 del: One_nat_def)
    have "fst (select_list (lst + 1) (drop_bit 1 sz)) = min 19 (lst + 1 + k)"
      using Suc.IH [OF lo hi] True by simp
    then show ?thesis using True gt by (subst select_list.simps) simp
  next
    case False
    with Suc.prems(3) have "lst = 19" by simp
    then show ?thesis by (subst select_list.simps) simp
  qed
qed

lemma floor_log2_bounds:
  assumes "0 < n"
  shows "2 ^ nat \<lfloor>log 2 (real n)\<rfloor> \<le> n \<and> n < 2 ^ (nat \<lfloor>log 2 (real n)\<rfloor> + 1)"
proof -
  have "0 \<le> log 2 (real n)" using assms by simp
  then have "0 \<le> \<lfloor>log 2 (real n)\<rfloor>" by simp
  then have "\<lfloor>log (real (2::nat)) (real n)\<rfloor> = int (nat \<lfloor>log 2 (real n)\<rfloor>)" by simp
  then show ?thesis
    using assms floor_log_nat_eq_powr_iff [of 2 n "nat \<lfloor>log 2 (real n)\<rfloor>"] by simp
qed

text \<open>
  Claim C8. For every size \<open>s \<ge> 1\<close> the bucket index that \<^verbatim>\<open>insert_node\<close> and
  \<^verbatim>\<open>delete_node\<close> compute is \<open>min 19 \<lfloor>log2 s\<rfloor>\<close>; so a size in a bucket \<open>k < 19\<close> lies
  in \<open>[2^k, 2^(k+1))\<close>, and bucket 19 takes exactly the sizes from \<open>2^19\<close> on.
\<close>

theorem bucket_index_floor_log2:
  assumes "1 \<le> s"
  shows "fst (select_list 0 s) = min 19 (nat \<lfloor>log 2 (real (unat s))\<rfloor>)
       \<and> (fst (select_list 0 s) < 19 \<longrightarrow>
            2 ^ fst (select_list 0 s) \<le> unat s \<and> unat s < 2 ^ (fst (select_list 0 s) + 1))
       \<and> (fst (select_list 0 s) = 19 \<longleftrightarrow> 2 ^ 19 \<le> unat s)"
proof -
  let ?n = "unat s"
  let ?k = "nat \<lfloor>log 2 (real ?n)\<rfloor>"
  have "unat (1::word32) \<le> unat s" using assms by (simp only: word_le_nat_alt)
  then have pos: "0 < ?n" by simp
  have lo: "2 ^ ?k \<le> ?n" and hi: "?n < 2 ^ (?k + 1)"
    using floor_log2_bounds [OF pos] by simp_all
  have idx: "fst (select_list 0 s) = min 19 ?k"
    using select_list_pow [OF lo hi, of 0] by simp
  have small: "2 ^ min 19 ?k \<le> ?n \<and> ?n < 2 ^ (min 19 ?k + 1)" if "min 19 ?k < 19"
  proof -
    from that have "min 19 ?k = ?k" by simp
    then show ?thesis using lo hi by simp
  qed
  have big: "(min 19 ?k = 19) = (2 ^ 19 \<le> ?n)"
  proof
    assume "min 19 ?k = 19"
    then have "19 \<le> ?k" by simp
    then have "(2::nat) ^ 19 \<le> 2 ^ ?k" by (rule power_increasing) simp
    then show "2 ^ 19 \<le> ?n" using lo by (rule order_trans)
  next
    assume a: "2 ^ 19 \<le> ?n"
    show "min 19 ?k = 19"
    proof (rule ccontr)
      assume "min 19 ?k \<noteq> 19"
      then have "?k + 1 \<le> 19" by simp
      then have "(2::nat) ^ (?k + 1) \<le> 2 ^ 19" by (rule power_increasing) simp
      then have "?n < 2 ^ 19" using hi by (rule less_le_trans [rotated])
      then show False using a by simp
    qed
  qed
  show ?thesis using idx small big by simp
qed

text \<open>A block of 48 bytes: the code selects bucket 5, and \<open>\<lfloor>log2 48\<rfloor> = 5\<close>.\<close>

theorem bucket_index_witness:
  "(1::word32) \<le> 48 \<and> fst (select_list 0 (48::word32)) = 5
   \<and> nat \<lfloor>log 2 (real (unat (48::word32)))\<rfloor> = 5
   \<and> (2::nat) ^ 5 \<le> unat (48::word32) \<and> unat (48::word32) < 2 ^ (5 + 1)"
proof -
  have h: "(1::word32) \<le> 48" by simp
  have e: "fst (select_list 0 (48::word32)) = 5" by (simp add: select_list.simps)
  show ?thesis using bucket_index_floor_log2 [OF h] h e by simp
qed

section \<open>Walking and updating a bucket list\<close>

lemma insert_search_chain:
  "pred_chain st x ns \<Longrightarrow>
   \<exists>sp ip. insert_search st sz x ip0 = Some (sp, ip)
     \<and> (sp = NULL \<or> sp \<in> set ns) \<and> (ip = ip0 \<or> ip \<in> set ns)"
proof (induction ns arbitrary: x ip0)
  case Nil
  then show ?case by (subst insert_search.simps) simp
next
  case (Cons n ns)
  then have x: "x = n" and nz: "n \<noteq> NULL" and rest: "pred_chain st (PRED st n) ns"
    by simp_all
  show ?case
  proof (cases "sz > GET_SIZE st (HDRP n)")
    case True
    from Cons.IH [OF rest, of n] obtain sp ip where
      "insert_search st sz (PRED st n) n = Some (sp, ip)"
      "sp = NULL \<or> sp \<in> set ns" "ip = n \<or> ip \<in> set ns"
      by blast
    then show ?thesis using True x nz by (subst insert_search.simps) auto
  next
    case False
    then show ?thesis using x nz by (subst insert_search.simps) simp
  qed
qed

lemma pred_chain_heap_eq:
  "\<forall>n\<in>set ns. heap st' n = heap st n \<Longrightarrow> pred_chain st' x ns = pred_chain st x ns"
  by (induction ns arbitrary: x) (simp_all add: PRED_def GET_def)

lemma insert_links_frame:
  assumes "a \<noteq> ptr" "a \<noteq> ptr + 4" "sp \<noteq> NULL \<longrightarrow> a \<noteq> sp + 4" "ip \<noteq> NULL \<longrightarrow> a \<noteq> ip"
  shows "heap (insert_links st k ptr sp ip) a = heap st a"
  using assms
  by (simp add: insert_links_def Let_def SET_PTR_def set_list_def PRED_PTR_def SUCC_PTR_def)

lemma insert_node_frame:
  assumes "pred_chain st (segregated_free_lists st (fst (select_list 0 sz))) ns"
  shows "\<exists>st'. insert_node st ptr sz = Some st'
           \<and> (\<forall>a. a \<noteq> ptr \<and> a \<noteq> ptr + 4 \<and> (\<forall>n\<in>set ns. a \<noteq> n \<and> a \<noteq> n + 4)
                  \<longrightarrow> heap st' a = heap st a)"
proof -
  obtain k sz' where sel: "select_list 0 sz = (k, sz')" by (cases "select_list 0 sz")
  with assms have "pred_chain st (segregated_free_lists st k) ns" by simp
  from insert_search_chain [OF this, of sz' NULL] obtain sp ip where
    s: "insert_search st sz' (segregated_free_lists st k) NULL = Some (sp, ip)"
    and sp: "sp = NULL \<or> sp \<in> set ns" and ip: "ip = NULL \<or> ip \<in> set ns"
    by blast
  have "insert_node st ptr sz = Some (insert_links st k ptr sp ip)"
    by (simp add: insert_node_def sel s)
  moreover have "heap (insert_links st k ptr sp ip) a = heap st a"
    if "a \<noteq> ptr \<and> a \<noteq> ptr + 4 \<and> (\<forall>n\<in>set ns. a \<noteq> n \<and> a \<noteq> n + 4)" for a
    using that sp ip by (intro insert_links_frame) auto
  ultimately show ?thesis by blast
qed

lemma insert_search_bucket:
  "bucket_chain st s x ns \<Longrightarrow>
   \<exists>sp ip. insert_search st sz x ip0 = Some (sp, ip)
     \<and> ((sp = x \<and> ip = ip0 \<and> (x \<noteq> NULL \<longrightarrow> SUCC st x = s \<and> x \<in> set ns))
        \<or> (ip \<in> set ns \<and> ip \<noteq> NULL \<and> PRED st ip = sp
            \<and> (sp \<noteq> NULL \<longrightarrow> sp \<in> set ns \<and> SUCC st sp = ip)))"
proof (induction ns arbitrary: x s ip0)
  case Nil
  then show ?case by (subst insert_search.simps) simp
next
  case (Cons n ns)
  then have x: "x = n" and nz: "n \<noteq> NULL" and sn: "SUCC st n = s"
    and rest: "bucket_chain st n (PRED st n) ns"
    by simp_all
  show ?case
  proof (cases "sz > GET_SIZE st (HDRP n)")
    case True
    from Cons.IH [OF rest, of n] obtain sp ip where
      r: "insert_search st sz (PRED st n) n = Some (sp, ip)"
      and d: "(sp = PRED st n \<and> ip = n \<and> (PRED st n \<noteq> NULL \<longrightarrow> SUCC st (PRED st n) = n \<and> PRED st n \<in> set ns))
        \<or> (ip \<in> set ns \<and> ip \<noteq> NULL \<and> PRED st ip = sp
            \<and> (sp \<noteq> NULL \<longrightarrow> sp \<in> set ns \<and> SUCC st sp = ip))"
      by blast
    have "insert_search st sz x ip0 = Some (sp, ip)"
      using True x nz r by (subst insert_search.simps) simp
    moreover have "ip \<in> set (n # ns) \<and> ip \<noteq> NULL \<and> PRED st ip = sp
            \<and> (sp \<noteq> NULL \<longrightarrow> sp \<in> set (n # ns) \<and> SUCC st sp = ip)"
      using d nz by auto
    ultimately show ?thesis by blast
  next
    case False
    then have "insert_search st sz x ip0 = Some (x, ip0)"
      using x nz by (subst insert_search.simps) simp
    then show ?thesis using x sn by simp
  qed
qed

section \<open>Resizing\<close>

text \<open>
  Claim C5. \<^verbatim>\<open>mm_realloc(ptr, 0)\<close> returns \<open>NULL\<close> and leaves the whole allocator state
  as it was: the block at \<open>ptr\<close> is not freed, no list entry and no word of the arena
  changes.
\<close>

theorem resize_zero_untouched: "mm_realloc st ptr 0 = Some (st, NULL)"
  by (simp add: mm_realloc_def)

text \<open>
  For a request \<open>sz > 0\<close> on a block of less than \<open>2^31\<close> bytes whose size is at least
  the adjusted request plus \<^verbatim>\<open>REALLOC_BUFFER\<close>, \<^verbatim>\<open>mm_realloc\<close> returns \<open>ptr\<close> and
  changes nothing: the difference that the code stores in the \<^verbatim>\<open>int block_buffer\<close> is
  then not negative.
\<close>

lemma resize_fits_below_2G:
  assumes "sz \<noteq> 0"
    and "adjust_size sz + REALLOC_BUFFER \<le> GET_SIZE st (HDRP ptr)"
    and "GET_SIZE st (HDRP ptr) < 0x80000000"
  shows "mm_realloc st ptr sz = Some (st, ptr)"
proof -
  let ?n = "adjust_size sz + REALLOC_BUFFER"
  let ?a = "GET_SIZE st (HDRP ptr)"
  have "?a - ?n \<le> ?a"
    using assms(2) by (rule word_sub_le)
  then have "?a - ?n < 0x80000000" using assms(3) by (rule le_less_trans)
  then have "uint (?a - ?n) < 2147483648" by (simp only: word_less_def) simp
  then have "0 \<le> sint (?a - ?n)" by (rule sint_nonneg)
  then have "\<not> sint (?a - ?n) < 0" by simp
  then show ?thesis using assms(1) by (simp add: mm_realloc_def Let_def)
qed

text \<open>A block of 272 bytes resized to 8 bytes: \<open>16 + 128 \<le> 272\<close>.\<close>

lemma resize_fits_below_2G_example:
  "mm_realloc (used_block_arena 272) 0x10010 8 = Some (used_block_arena 272, 0x10010)"
proof -
  have h1: "(8::word32) \<noteq> 0" by simp
  have h2: "adjust_size 8 + REALLOC_BUFFER \<le> GET_SIZE (used_block_arena 272) (HDRP 0x10010)"
    by (simp add: adjust_size_def used_block_arena_def GET_SIZE_def GET_def HDRP_def)
  have h3: "GET_SIZE (used_block_arena 272) (HDRP 0x10010) < 0x80000000"
    by (simp add: used_block_arena_def GET_SIZE_def GET_def HDRP_def)
  show ?thesis using h1 h2 h3 by (rule resize_fits_below_2G)
qed

section \<open>Placement\<close>

text \<open>
  Claim C3, as the code has it. The test of \<^verbatim>\<open>place\<close> is
  \<^verbatim>\<open>remainder <= DSIZE * 2\<close>: for a free block \<open>ptr\<close> and a request \<open>asize\<close> not larger
  than the block, if the remainder is at most 16 bytes, \<^verbatim>\<open>place\<close> does not split. It
  unlinks the block, writes header and footer \<open>(size(ptr), allocated)\<close>, changes no other
  word and returns \<open>ptr\<close>.
\<close>

theorem place_no_split:
  assumes "asize \<le> GET_SIZE st (HDRP ptr)"
    and "unat (GET_SIZE st (HDRP ptr)) - unat asize \<le> 16"
  shows "\<exists>st'. place st ptr asize = Some (st', ptr)
           \<and> GET st' (HDRP ptr) = PACK (GET_SIZE st (HDRP ptr)) 1
           \<and> GET st' (ptr + GET_SIZE st (HDRP ptr) - DSIZE) = PACK (GET_SIZE st (HDRP ptr)) 1
           \<and> segregated_free_lists st' = segregated_free_lists (delete_node st ptr)
           \<and> (\<forall>a. a \<noteq> HDRP ptr \<and> a \<noteq> ptr + GET_SIZE st (HDRP ptr) - DSIZE
                  \<longrightarrow> heap st' a = heap (delete_node st ptr) a)"
proof -
  let ?s = "GET_SIZE st (HDRP ptr)"
  have "unat (?s - asize) = unat ?s - unat asize"
    using assms(1) by (simp add: unat_sub)
  then have "unat (?s - asize) \<le> unat (16 :: word32)" using assms(2) by simp
  then have rem: "?s - asize \<le> 16" by (simp only: word_le_nat_alt)
  have ne: "ptr + (heap st (ptr - 4) AND - 8) - 8 \<noteq> ptr - 4"
  proof
    assume "ptr + (heap st (ptr - 4) AND - 8) - 8 = ptr - 4"
    then have "(heap st (ptr - 4) AND - 8) = 4" by (simp add: algebra_simps)
    then show False by (simp add: sized_ne_4)
  qed
  show ?thesis
    using rem ne
    by (simp add: place_def Let_def PUT_NOTAG_def GET_def GET_SIZE_def HDRP_def FTRP_def PACK_def
        size_tag_alloc)
qed

text \<open>
  A free block of 32 bytes and a request of 16: the remainder is exactly 16, the block
  is not split and its header reads \<open>(32, allocated)\<close>.
\<close>

theorem place_no_split_witness:
  "(16::word32) \<le> GET_SIZE (free_block_arena 32 5) (HDRP 0x10010)
   \<and> unat (GET_SIZE (free_block_arena 32 5) (HDRP 0x10010)) - unat (16::word32) \<le> 16
   \<and> ptr_after (place (free_block_arena 32 5) 0x10010 16) = Some 0x10010
   \<and> word_after (place (free_block_arena 32 5) 0x10010 16) 0x1000C = Some 33
   \<and> word_after (place (free_block_arena 32 5) 0x10010 16) 0x10028 = Some 33"
proof -
  have hd: "HDRP 0x10010 = 0x1000C" by (simp add: HDRP_def)
  have s: "GET_SIZE (free_block_arena 32 5) 0x1000C = 32"
    by (simp add: free_block_arena_def GET_SIZE_def GET_def)
  have h1: "(16::word32) \<le> GET_SIZE (free_block_arena 32 5) (HDRP 0x10010)"
    by (simp add: hd s)
  have h2: "unat (GET_SIZE (free_block_arena 32 5) (HDRP 0x10010)) - unat (16::word32) \<le> 16"
    by (simp add: hd s)
  from place_no_split [OF h1 h2] obtain st' where
    "place (free_block_arena 32 5) 0x10010 16 = Some (st', 0x10010)"
    "GET st' (HDRP 0x10010) = PACK (GET_SIZE (free_block_arena 32 5) (HDRP 0x10010)) 1"
    "GET st' (0x10010 + GET_SIZE (free_block_arena 32 5) (HDRP 0x10010) - DSIZE)
       = PACK (GET_SIZE (free_block_arena 32 5) (HDRP 0x10010)) 1"
    by blast
  then show ?thesis
    using h1 h2 by (simp add: hd s ptr_after_def word_after_def PACK_def)
qed

text \<open>
  The claim as the spec words it, with the bound 32, fails: a free block of 40 bytes and
  a request of 16 leave a remainder of 24, and \<^verbatim>\<open>place\<close> splits. The header at \<open>ptr\<close>
  becomes \<open>(16, allocated)\<close>, not \<open>(40, allocated)\<close>, and a free block of 24 bytes
  follows.
\<close>

theorem place_no_split_below_32_counterexample:
  "GET_SIZE (free_block_arena 40 5) (HDRP 0x10010) = 40
   \<and> unat (40::word32) - unat (16::word32) < 32
   \<and> ptr_after (place (free_block_arena 40 5) 0x10010 16) = Some 0x10010
   \<and> word_after (place (free_block_arena 40 5) 0x10010 16) (HDRP 0x10010) = Some (PACK 16 1)
   \<and> word_after (place (free_block_arena 40 5) 0x10010 16) (HDRP 0x10020) = Some (PACK 24 0)
   \<and> PACK 16 1 \<noteq> PACK 40 1"
  by (simp add: free_block_arena_def ptr_after_def word_after_def mm_defs)

lemma first_free_writes:
  assumes R8: "8 dvd (R :: word32)" and A8: "8 dvd (asize :: word32)"
    and R0: "R \<noteq> 0"
  shows "(let st = PUT_NOTAG s1 (HDRP ptr) (PACK R 0);
              st = PUT_NOTAG st (FTRP st ptr) (PACK R 0);
              st = PUT_NOTAG st (HDRP (NEXT_BLKP st ptr)) (PACK asize 1)
          in PUT_NOTAG st (FTRP st (NEXT_BLKP st ptr)) (PACK asize 1))
       = s1\<lparr>heap := (heap s1)(ptr - 4 := R, ptr + R - 8 := R,
                                 ptr + R - 4 := asize OR 1, ptr + R + asize - 8 := asize OR 1)\<rparr>"
proof -
  have Rid: "R AND - 8 = R" using R8 by (rule and_minus8_id)
  have Aid: "(asize OR 1) AND - 8 = asize" using A8 by (rule or1_and_minus8)
  have R4: "R \<noteq> 4"
  proof
    assume "R = 4"
    then have "R AND - 8 = 0" by simp
    then show False using Rid R0 by simp
  qed
  show ?thesis
    using R0 R4
    apply (simp add: Let_def PUT_NOTAG_def GET_def GET_SIZE_def HDRP_def FTRP_def
        NEXT_BLKP_def PACK_def Rid Aid)
    done
qed

lemma tags_in_block:
  fixes P asize :: word32
  assumes le: "asize \<le> P" and rem: "16 < P - asize" and big: "73 \<le> asize"
  shows "(0::word32) < P" "P - asize - 4 < P" "P - asize < P" "P - 4 < P"
    "P - asize \<noteq> 0" "P - asize \<noteq> 4" "P - asize \<noteq> 8" "P - asize \<noteq> 12"
    "P \<noteq> 4" "P \<noteq> 8" "P \<noteq> 12" "asize \<noteq> 0" "asize \<noteq> 4"
  using assms by unat_arith+

lemma place_first_free_state:
  assumes rem: "16 < GET_SIZE st (HDRP ptr) - asize"
    and big: "73 \<le> asize"
    and al: "asize AND 7 = 0"
  shows "place st ptr asize =
    (case insert_node
       ((delete_node st ptr)\<lparr>heap := (heap (delete_node st ptr))
          (ptr - 4 := GET_SIZE st (HDRP ptr) - asize,
           ptr + (GET_SIZE st (HDRP ptr) - asize) - 8 := GET_SIZE st (HDRP ptr) - asize,
           ptr + (GET_SIZE st (HDRP ptr) - asize) - 4 := asize OR 1,
           ptr + (GET_SIZE st (HDRP ptr) - asize) + asize - 8 := asize OR 1)\<rparr>)
       ptr (GET_SIZE st (HDRP ptr) - asize) of
     None \<Rightarrow> None
   | Some st6 \<Rightarrow> Some (st6, NEXT_BLKP st6 ptr))"
proof -
  let ?P = "GET_SIZE st (HDRP ptr)"
  let ?R = "?P - asize"
  have P8: "8 dvd ?P" by (simp add: GET_SIZE_def dvd_and_minus8)
  have A8: "8 dvd asize" using al by (simp only: and7_dvd)
  have R8: "8 dvd ?R" using P8 A8 by (rule dvd_diff)
  have R0: "?R \<noteq> 0" using rem by auto
  have nrem: "\<not> ?R \<le> 2 * 8" using rem by simp
  show ?thesis
    unfolding place_def Let_def
    by (simp only: first_free_writes [unfolded Let_def, OF R8 A8 R0] nrem big if_False if_True
         mult.commute [of DSIZE 2])
qed

lemma tag_offsets:
  fixes P asize R :: word32
  assumes le: "asize \<le> P" and rem: "16 < P - asize" and big: "73 \<le> asize"
    and R: "R = P - asize"
  shows "(0::word32) < P" "R - 4 < P" "R < P" "P - 4 < P"
    "R \<noteq> 0" "R \<noteq> 4" "R \<noteq> 8" "R \<noteq> 12" "P \<noteq> 4" "P \<noteq> 8" "P \<noteq> 12"
    "P \<noteq> R" "R \<noteq> P" "P \<noteq> 4 + R" "4 + R \<noteq> P"
  using tags_in_block [OF le rem big] unfolding R by (simp_all add: add_diff_eq)

text \<open>
  Claim C4, as the code has it. The test of \<^verbatim>\<open>place\<close> is \<^verbatim>\<open>asize >= 73\<close>: for a
  free block \<open>ptr\<close> and an 8-aligned request \<open>asize \<ge> 73\<close> that leaves a remainder of more
  than 16 bytes, the free remainder is put at the lower address (header and footer
  \<open>(remainder, free)\<close> at \<open>ptr\<close>), the allocated block of size \<open>asize\<close> at the higher
  address, and the payload of that second block is returned. The bucket that takes the
  remainder is a list of blocks none of whose link words lies inside the block being
  split.
\<close>

theorem place_free_remainder_first:
  assumes le: "asize \<le> GET_SIZE st (HDRP ptr)"
    and rem: "16 < GET_SIZE st (HDRP ptr) - asize"
    and big: "73 \<le> asize"
    and al: "asize AND 7 = 0"
    and chain: "pred_chain (delete_node st ptr)
                  (segregated_free_lists (delete_node st ptr)
                     (fst (select_list 0 (GET_SIZE st (HDRP ptr) - asize)))) ns"
    and sep: "\<forall>n\<in>set ns. \<not> in_block st ptr n \<and> \<not> in_block st ptr (n + 4)"
  shows "\<exists>st'. place st ptr asize = Some (st', ptr + (GET_SIZE st (HDRP ptr) - asize))
           \<and> GET st' (HDRP ptr) = PACK (GET_SIZE st (HDRP ptr) - asize) 0
           \<and> GET st' (ptr + (GET_SIZE st (HDRP ptr) - asize) - DSIZE)
               = PACK (GET_SIZE st (HDRP ptr) - asize) 0
           \<and> GET st' (HDRP (ptr + (GET_SIZE st (HDRP ptr) - asize))) = PACK asize 1
           \<and> GET st' (ptr + GET_SIZE st (HDRP ptr) - DSIZE) = PACK asize 1"
proof -
  define P where "P = GET_SIZE st (HDRP ptr)"
  define R where "R = P - asize"
  define s1 where "s1 = delete_node st ptr"
  define s5 where "s5 = s1\<lparr>heap := (heap s1)(ptr - 4 := R, ptr + R - 8 := R,
                                     ptr + R - 4 := asize OR 1, ptr + P - 8 := asize OR 1)\<rparr>"
  have le': "asize \<le> P" and rem': "16 < P - asize" using le rem by (simp_all add: P_def)
  note ar = tag_offsets [OF le' rem' big R_def]
  have P8: "8 dvd P" by (simp add: P_def GET_SIZE_def dvd_and_minus8)
  have A8: "8 dvd asize" using al by (simp only: and7_dvd)
  have R8: "8 dvd R" unfolding R_def using P8 A8 by (rule dvd_diff)
  have Rid: "R AND - 8 = R" using R8 by (rule and_minus8_id)
  have RA: "ptr + R + asize - 8 = ptr + P - 8" by (simp add: R_def)
  have pl: "place st ptr asize =
      (case insert_node s5 ptr R of None \<Rightarrow> None | Some st6 \<Rightarrow> Some (st6, NEXT_BLKP st6 ptr))"
    using place_first_free_state [OF rem big al]
    unfolding P_def [symmetric] R_def [symmetric] s1_def [symmetric] RA s5_def [symmetric] .
  have inb: "in_block st ptr a = (a - (ptr - 4) < P)" for a
    by (simp add: in_block_def P_def HDRP_def)
  have e1: "ptr - 4 - (ptr - 4) = (0::word32)" by simp
  have e2: "ptr + R - 8 - (ptr - 4) = R - 4" by simp
  have e3: "ptr + R - 4 - (ptr - 4) = R" by simp
  have e4: "ptr + P - 8 - (ptr - 4) = P - 4" by simp
  have tag_in: "in_block st ptr (ptr - 4)" "in_block st ptr (ptr + R - 8)"
    "in_block st ptr (ptr + R - 4)" "in_block st ptr (ptr + P - 8)"
    unfolding inb e1 e2 e3 e4 by (rule ar)+
  have node_ne: "n \<noteq> t \<and> n + 4 \<noteq> t" if "n \<in> set ns" "in_block st ptr t" for n t
    using sep that by auto
  have same: "\<forall>n\<in>set ns. heap s5 n = heap s1 n"
    using node_ne tag_in by (simp add: s5_def)
  have "pred_chain s1 (segregated_free_lists s1 (fst (select_list 0 R))) ns"
    using chain by (simp add: s1_def R_def P_def)
  then have "pred_chain s5 (segregated_free_lists s1 (fst (select_list 0 R))) ns"
    by (simp only: pred_chain_heap_eq [OF same])
  then have "pred_chain s5 (segregated_free_lists s5 (fst (select_list 0 R))) ns"
    by (simp add: s5_def)
  from insert_node_frame [OF this, of ptr] obtain st6 where
    ins: "insert_node s5 ptr R = Some st6"
    and frame: "\<And>a. a \<noteq> ptr \<Longrightarrow> a \<noteq> ptr + 4 \<Longrightarrow> (\<forall>n\<in>set ns. a \<noteq> n \<and> a \<noteq> n + 4)
                  \<Longrightarrow> heap st6 a = heap s5 a"
    by blast
  have keep: "heap st6 t = heap s5 t" if "in_block st ptr t" "t \<noteq> ptr" "t \<noteq> ptr + 4" for t
    using that node_ne by (intro frame) auto
  have t1: "heap st6 (ptr - 4) = R"
    using keep [OF tag_in(1)] ar by (simp add: s5_def)
  have t2: "heap st6 (ptr + R - 8) = R"
    using keep [OF tag_in(2)] ar by (simp add: s5_def)
  have t3: "heap st6 (ptr + R - 4) = asize OR 1"
    using keep [OF tag_in(3)] ar by (simp add: s5_def)
  have t4: "heap st6 (ptr + P - 8) = asize OR 1"
    using keep [OF tag_in(4)] ar by (simp add: s5_def)
  have nx: "NEXT_BLKP st6 ptr = ptr + R"
    by (simp add: NEXT_BLKP_def GET_SIZE_def GET_def t1 Rid)
  have "place st ptr asize = Some (st6, ptr + R)"
    by (simp add: pl ins nx)
  then show ?thesis
    using t1 t2 t3 t4 unfolding P_def [symmetric] R_def [symmetric]
    by (simp add: GET_def HDRP_def PACK_def)
qed

text \<open>
  A free block of 4096 bytes and a request of 80: the remainder of 4016 bytes stays at
  \<open>0x10010\<close> and joins the block of 2048 bytes in bucket 11; the allocated block is at
  \<open>0x10FC0\<close>.
\<close>

theorem place_free_remainder_first_witness:
  "(80::word32) \<le> GET_SIZE two_free_arena (HDRP 0x10010)
   \<and> 16 < GET_SIZE two_free_arena (HDRP 0x10010) - 80
   \<and> (73::word32) \<le> 80
   \<and> (80::word32) AND 7 = 0
   \<and> pred_chain (delete_node two_free_arena 0x10010)
        (segregated_free_lists (delete_node two_free_arena 0x10010)
           (fst (select_list 0 (GET_SIZE two_free_arena (HDRP 0x10010) - 80)))) [0x11020]
   \<and> \<not> in_block two_free_arena 0x10010 0x11020
   \<and> \<not> in_block two_free_arena 0x10010 (0x11020 + 4)
   \<and> ptr_after (place two_free_arena 0x10010 80) = Some 0x10FC0
   \<and> word_after (place two_free_arena 0x10010 80) 0x1000C = Some 4016
   \<and> word_after (place two_free_arena 0x10010 80) 0x10FB8 = Some 4016
   \<and> word_after (place two_free_arena 0x10010 80) 0x10FBC = Some 81
   \<and> word_after (place two_free_arena 0x10010 80) 0x11008 = Some 81"
proof -
  have hd: "HDRP 0x10010 = 0x1000C" by (simp add: HDRP_def)
  have s: "GET_SIZE two_free_arena 0x1000C = 4096"
    by (simp add: two_free_arena_def GET_SIZE_def GET_def)
  have h1: "(80::word32) \<le> GET_SIZE two_free_arena (HDRP 0x10010)" by (simp add: hd s)
  have h2: "16 < GET_SIZE two_free_arena (HDRP 0x10010) - 80" by (simp add: hd s)
  have h3: "(73::word32) \<le> 80" by simp
  have h4: "(80::word32) AND 7 = 0" by simp
  have k: "select_list 0 (4016::word32) = (11, 1)" by (simp add: select_list.simps)
  have k12: "select_list 0 (4096::word32) = (12, 1)" by (simp add: select_list.simps)
  have p: "PRED two_free_arena 0x10010 = NULL"
    by (simp add: PRED_def GET_def two_free_arena_def)
  have su: "SUCC two_free_arena 0x10010 = NULL"
    by (simp add: SUCC_def SUCC_PTR_def GET_def two_free_arena_def)
  have d: "delete_node two_free_arena 0x10010 = set_list two_free_arena 12 NULL"
    by (simp add: delete_node_def hd s k12 p su)
  have h5: "pred_chain (delete_node two_free_arena 0x10010)
        (segregated_free_lists (delete_node two_free_arena 0x10010)
           (fst (select_list 0 (GET_SIZE two_free_arena (HDRP 0x10010) - 80)))) [0x11020]"
    by (simp add: hd s k d) (simp add: set_list_def two_free_arena_def PRED_def GET_def)
  have h6: "\<not> in_block two_free_arena 0x10010 0x11020"
    by (simp add: in_block_def hd s)
  have h7: "\<not> in_block two_free_arena 0x10010 (0x11020 + 4)"
    by (simp add: in_block_def hd s)
  have sep: "\<forall>n\<in>set [0x11020]. \<not> in_block two_free_arena 0x10010 n
                \<and> \<not> in_block two_free_arena 0x10010 (n + 4)"
    using h6 h7 by simp
  from place_free_remainder_first [OF h1 h2 h3 h4 h5 sep] obtain st' where
    "place two_free_arena 0x10010 80
       = Some (st', 0x10010 + (GET_SIZE two_free_arena (HDRP 0x10010) - 80))"
    "GET st' (HDRP 0x10010) = PACK (GET_SIZE two_free_arena (HDRP 0x10010) - 80) 0"
    "GET st' (0x10010 + (GET_SIZE two_free_arena (HDRP 0x10010) - 80) - DSIZE)
       = PACK (GET_SIZE two_free_arena (HDRP 0x10010) - 80) 0"
    "GET st' (HDRP (0x10010 + (GET_SIZE two_free_arena (HDRP 0x10010) - 80))) = PACK 80 1"
    "GET st' (0x10010 + GET_SIZE two_free_arena (HDRP 0x10010) - DSIZE) = PACK 80 1"
    by blast
  then have "ptr_after (place two_free_arena 0x10010 80) = Some 0x10FC0"
    "word_after (place two_free_arena 0x10010 80) 0x1000C = Some 4016"
    "word_after (place two_free_arena 0x10010 80) 0x10FB8 = Some 4016"
    "word_after (place two_free_arena 0x10010 80) 0x10FBC = Some 81"
    "word_after (place two_free_arena 0x10010 80) 0x11008 = Some 81"
    by (simp_all add: hd s ptr_after_def word_after_def PACK_def HDRP_def)
  then show ?thesis using h1 h2 h3 h4 h5 h6 h7 by simp
qed

text \<open>
  The claim as the spec words it, with the bound 72, fails: for a free block of 112
  bytes and the aligned request 72 (remainder 40) the allocated block is put first.
  \<^verbatim>\<open>place\<close> returns \<open>ptr\<close> itself, the header at \<open>ptr\<close> reads \<open>(72, allocated)\<close> and
  the free remainder follows at the higher address.
\<close>

theorem place_free_first_at_72_counterexample:
  "(72::word32) \<le> 72
   \<and> (72::word32) AND 7 = 0
   \<and> GET_SIZE (free_block_arena 112 6) (HDRP 0x10010) = 112
   \<and> (16::word32) < 112 - 72
   \<and> ptr_after (place (free_block_arena 112 6) 0x10010 72) = Some 0x10010
   \<and> word_after (place (free_block_arena 112 6) 0x10010 72) (HDRP 0x10010) = Some (PACK 72 1)
   \<and> word_after (place (free_block_arena 112 6) 0x10010 72) (HDRP (0x10010 + 72)) = Some (PACK 40 0)
   \<and> PACK 72 1 \<noteq> PACK 40 0"
  by (simp add: free_block_arena_def ptr_after_def word_after_def mm_defs)

section \<open>Insertion followed by deletion\<close>

lemma roundtrip_empty:
  assumes "segregated_free_lists st k = NULL"
    and "select_list 0 (GET_SIZE st (HDRP ptr)) = (k, sz')"
  shows "segregated_free_lists (delete_node (insert_links st k ptr NULL NULL) ptr) = segregated_free_lists st
     \<and> (\<forall>a. a \<noteq> ptr \<and> a \<noteq> ptr + 4 \<longrightarrow> heap (delete_node (insert_links st k ptr NULL NULL) ptr) a = heap st a)"
proof -
  define s1 where "s1 = insert_links st k ptr NULL NULL"
  have h: "heap s1 = (heap st)(ptr := NULL, ptr + 4 := NULL)"
    and l: "segregated_free_lists s1 = (segregated_free_lists st)(k := ptr)"
    by (simp_all add: s1_def insert_links_def Let_def SET_PTR_def set_list_def PRED_PTR_def SUCC_PTR_def)
  have sel: "select_list 0 (GET_SIZE s1 (HDRP ptr)) = (k, sz')"
    using assms(2) by (simp add: GET_SIZE_def GET_def HDRP_def h)
  have "delete_node s1 ptr = set_list s1 k NULL"
    by (simp add: delete_node_def sel PRED_def SUCC_def SUCC_PTR_def GET_def h)
  then show ?thesis
    unfolding s1_def [symmetric] using assms(1)
    by (auto simp: set_list_def h l)
qed

lemma clear_of_facts:
  assumes "clear_of ptr n"
  shows "n \<noteq> ptr" "ptr \<noteq> n" "ptr \<noteq> 4 + n" "ptr \<noteq> 8 + n" "n \<noteq> 4 + ptr"
    "n \<noteq> ptr + 4" "n \<noteq> ptr - 4" "n \<noteq> ptr - 8" "n + 4 \<noteq> ptr" "n + 4 \<noteq> ptr - 4"
  using assms by (auto simp: clear_of_def)

lemma roundtrip_head:
  assumes hd: "segregated_free_lists st k = x" and xz: "x \<noteq> NULL"
    and sx: "SUCC st x = NULL" and cl: "clear_of ptr x"
    and sel0: "select_list 0 (GET_SIZE st (HDRP ptr)) = (k, sz')"
  shows "segregated_free_lists (delete_node (insert_links st k ptr x NULL) ptr) = segregated_free_lists st
     \<and> (\<forall>a. a \<noteq> ptr \<and> a \<noteq> ptr + 4 \<longrightarrow> heap (delete_node (insert_links st k ptr x NULL) ptr) a = heap st a)"
proof -
  define s1 where "s1 = insert_links st k ptr x NULL"
  note c = clear_of_facts [OF cl]
  have h: "heap s1 = (heap st)(ptr := x, x + 4 := ptr, ptr + 4 := NULL)"
    and l: "segregated_free_lists s1 = (segregated_free_lists st)(k := ptr)"
    using xz
    by (simp_all add: s1_def insert_links_def Let_def SET_PTR_def set_list_def PRED_PTR_def SUCC_PTR_def)
  have hdr: "heap s1 (ptr - 4) = heap st (ptr - 4)" using c by (simp add: h)
  have sel: "select_list 0 (GET_SIZE s1 (HDRP ptr)) = (k, sz')"
    using sel0 by (simp add: GET_SIZE_def GET_def HDRP_def hdr)
  have p: "PRED s1 ptr = x" using c by (simp add: PRED_def GET_def h)
  have s: "SUCC s1 ptr = NULL" by (simp add: SUCC_def SUCC_PTR_def GET_def h)
  have p': "PRED (SET_PTR s1 (SUCC_PTR x) NULL) ptr = x"
    using c by (simp add: PRED_def GET_def SET_PTR_def SUCC_PTR_def h)
  have d: "delete_node s1 ptr = set_list (SET_PTR s1 (SUCC_PTR x) NULL) k x"
    using xz by (simp add: delete_node_def sel p s p' Let_def)
  have orig: "heap st (x + 4) = NULL" using sx by (simp add: SUCC_def SUCC_PTR_def GET_def)
  show ?thesis
    unfolding s1_def [symmetric] d using hd orig
    by (auto simp: set_list_def SET_PTR_def SUCC_PTR_def h l)
qed

lemma roundtrip_tail:
  assumes iz: "ip \<noteq> NULL" and pi: "PRED st ip = NULL" and cl: "clear_of ptr ip"
    and sel0: "select_list 0 (GET_SIZE st (HDRP ptr)) = (k, sz')"
  shows "segregated_free_lists (delete_node (insert_links st k ptr NULL ip) ptr) = segregated_free_lists st
     \<and> (\<forall>a. a \<noteq> ptr \<and> a \<noteq> ptr + 4 \<longrightarrow> heap (delete_node (insert_links st k ptr NULL ip) ptr) a = heap st a)"
proof -
  define s1 where "s1 = insert_links st k ptr NULL ip"
  note c = clear_of_facts [OF cl]
  have h: "heap s1 = (heap st)(ptr := NULL, ptr + 4 := ip, ip := ptr)"
    and l: "segregated_free_lists s1 = segregated_free_lists st"
    using iz
    by (simp_all add: s1_def insert_links_def Let_def SET_PTR_def set_list_def PRED_PTR_def SUCC_PTR_def)
  have hdr: "heap s1 (ptr - 4) = heap st (ptr - 4)" using c by (simp add: h)
  have sel: "select_list 0 (GET_SIZE s1 (HDRP ptr)) = (k, sz')"
    using sel0 by (simp add: GET_SIZE_def GET_def HDRP_def hdr)
  have p: "PRED s1 ptr = NULL" using c by (simp add: PRED_def GET_def h)
  have s: "SUCC s1 ptr = ip" using c by (simp add: SUCC_def SUCC_PTR_def GET_def h)
  have d: "delete_node s1 ptr = SET_PTR s1 (PRED_PTR ip) NULL"
    using iz by (simp add: delete_node_def sel p s Let_def)
  have orig: "heap st ip = NULL" using pi by (simp add: PRED_def GET_def)
  show ?thesis
    unfolding s1_def [symmetric] d using orig
    by (auto simp: SET_PTR_def PRED_PTR_def h l)
qed

lemma roundtrip_middle:
  assumes sz: "sp \<noteq> NULL" and iz: "ip \<noteq> NULL"
    and pi: "PRED st ip = sp" and ss: "SUCC st sp = ip"
    and cls: "clear_of ptr sp" and cli: "clear_of ptr ip"
    and sel0: "select_list 0 (GET_SIZE st (HDRP ptr)) = (k, sz')"
  shows "segregated_free_lists (delete_node (insert_links st k ptr sp ip) ptr) = segregated_free_lists st
     \<and> (\<forall>a. a \<noteq> ptr \<and> a \<noteq> ptr + 4 \<longrightarrow> heap (delete_node (insert_links st k ptr sp ip) ptr) a = heap st a)"
proof -
  define s1 where "s1 = insert_links st k ptr sp ip"
  note c = clear_of_facts [OF cls] clear_of_facts [OF cli]
  have h: "heap s1 = (heap st)(ptr := sp, sp + 4 := ptr, ptr + 4 := ip, ip := ptr)"
    and l: "segregated_free_lists s1 = segregated_free_lists st"
    using iz sz
    by (simp_all add: s1_def insert_links_def Let_def SET_PTR_def set_list_def PRED_PTR_def SUCC_PTR_def)
  have hdr: "heap s1 (ptr - 4) = heap st (ptr - 4)" using c by (simp add: h)
  have sel: "select_list 0 (GET_SIZE s1 (HDRP ptr)) = (k, sz')"
    using sel0 by (simp add: GET_SIZE_def GET_def HDRP_def hdr)
  have p: "PRED s1 ptr = sp" using c by (simp add: PRED_def GET_def h)
  have s: "SUCC s1 ptr = ip" using c by (simp add: SUCC_def SUCC_PTR_def GET_def h)
  have p': "PRED (SET_PTR s1 (SUCC_PTR sp) ip) ptr = sp"
    using c by (simp add: PRED_def GET_def SET_PTR_def SUCC_PTR_def h)
  have s': "SUCC (SET_PTR s1 (SUCC_PTR sp) ip) ptr = ip"
    using c by (simp add: SUCC_def GET_def SET_PTR_def SUCC_PTR_def h)
  have d: "delete_node s1 ptr = SET_PTR (SET_PTR s1 (SUCC_PTR sp) ip) (PRED_PTR ip) sp"
    using iz sz by (simp add: delete_node_def sel p s p' s' Let_def)
  have o1: "heap st ip = sp" using pi by (simp add: PRED_def GET_def)
  have o2: "heap st (sp + 4) = ip" using ss by (simp add: SUCC_def SUCC_PTR_def GET_def)
  show ?thesis
    unfolding s1_def [symmetric] d using o1 o2
    by (auto simp: SET_PTR_def PRED_PTR_def SUCC_PTR_def h l)
qed


text \<open>
  Claim C10. Let the bucket that the size of \<open>ptr\<close> selects be a well-formed doubly
  linked list of blocks \<open>ns\<close>, and let \<open>ptr\<close> be a block apart from all of them (so it is
  in no list). Then \<^verbatim>\<open>insert_node(ptr, size(ptr))\<close> followed by \<^verbatim>\<open>delete_node(ptr)\<close>
  returns, every bucket head has its prior value, and so has every word of the arena
  other than the two link words of \<open>ptr\<close> itself: every \<^verbatim>\<open>PRED\<close> and \<^verbatim>\<open>SUCC\<close> link of
  the blocks listed before is restored.
\<close>

theorem insert_then_delete_restores:
  assumes chain: "bucket_chain st NULL
                    (segregated_free_lists st (fst (select_list 0 (GET_SIZE st (HDRP ptr))))) ns"
    and sep: "\<forall>n\<in>set ns. clear_of ptr n"
  shows "\<exists>st2. insert_delete st ptr = Some st2
           \<and> segregated_free_lists st2 = segregated_free_lists st
           \<and> (\<forall>a. a \<noteq> ptr \<and> a \<noteq> ptr + 4 \<longrightarrow> heap st2 a = heap st a)"
proof -
  obtain k sz' where sel: "select_list 0 (GET_SIZE st (HDRP ptr)) = (k, sz')"
    by (cases "select_list 0 (GET_SIZE st (HDRP ptr))")
  define x where "x = segregated_free_lists st k"
  have ch: "bucket_chain st NULL x ns" using chain by (simp add: sel x_def)
  from insert_search_bucket [OF ch, of sz' NULL] obtain sp ip where
    r: "insert_search st sz' x NULL = Some (sp, ip)"
    and d: "(sp = x \<and> ip = NULL \<and> (x \<noteq> NULL \<longrightarrow> SUCC st x = NULL \<and> x \<in> set ns))
        \<or> (ip \<in> set ns \<and> ip \<noteq> NULL \<and> PRED st ip = sp
            \<and> (sp \<noteq> NULL \<longrightarrow> sp \<in> set ns \<and> SUCC st sp = ip))"
    by blast
  have ins: "insert_delete st ptr = Some (delete_node (insert_links st k ptr sp ip) ptr)"
    by (simp add: insert_delete_def insert_node_def sel r x_def [symmetric])
  let ?goal = "segregated_free_lists (delete_node (insert_links st k ptr sp ip) ptr)
                 = segregated_free_lists st
     \<and> (\<forall>a. a \<noteq> ptr \<and> a \<noteq> ptr + 4
          \<longrightarrow> heap (delete_node (insert_links st k ptr sp ip) ptr) a = heap st a)"
  from d have ?goal
  proof
    assume a: "sp = x \<and> ip = NULL \<and> (x \<noteq> NULL \<longrightarrow> SUCC st x = NULL \<and> x \<in> set ns)"
    show ?goal
    proof (cases "x = NULL")
      case True
      then have "segregated_free_lists st k = NULL" by (simp add: x_def)
      from roundtrip_empty [OF this sel] show ?thesis using a True by simp
    next
      case False
      then have sx: "SUCC st x = NULL" and cx: "clear_of ptr x" using a sep by auto
      have "segregated_free_lists st k = x" by (simp add: x_def)
      from roundtrip_head [OF this False sx cx sel] show ?thesis using a by simp
    qed
  next
    assume b: "ip \<in> set ns \<and> ip \<noteq> NULL \<and> PRED st ip = sp
            \<and> (sp \<noteq> NULL \<longrightarrow> sp \<in> set ns \<and> SUCC st sp = ip)"
    then have ci: "clear_of ptr ip" and iz: "ip \<noteq> NULL" and pi: "PRED st ip = sp"
      using sep by auto
    show ?goal
    proof (cases "sp = NULL")
      case True
      then have "PRED st ip = NULL" using pi by simp
      from roundtrip_tail [OF iz this ci sel] show ?thesis using True by simp
    next
      case False
      then have cs: "clear_of ptr sp" and ss: "SUCC st sp = ip" using b sep by auto
      from roundtrip_middle [OF False iz pi ss cs ci sel] show ?thesis .
    qed
  qed
  then show ?thesis using ins by simp
qed

text \<open>
  The free block of 48 bytes at \<open>0x10010\<close> goes into bucket 5 in front of the block
  at \<open>0x10050\<close> and out again: the bucket head and both links of that block are as before.
\<close>

theorem insert_then_delete_witness:
  "bucket_chain two_node_arena NULL
     (segregated_free_lists two_node_arena
        (fst (select_list 0 (GET_SIZE two_node_arena (HDRP 0x10010))))) [0x10050]
   \<and> clear_of 0x10010 0x10050
   \<and> list_after (insert_delete two_node_arena 0x10010) 5 = Some 0x10050
   \<and> heap_after (insert_delete two_node_arena 0x10010) 0x10050 = Some NULL
   \<and> heap_after (insert_delete two_node_arena 0x10010) 0x10054 = Some NULL"
proof -
  have s: "select_list 0 (GET_SIZE two_node_arena (HDRP 0x10010)) = (5, 1)"
    by (simp add: two_node_arena_def GET_SIZE_def GET_def HDRP_def select_list.simps)
  have h1: "bucket_chain two_node_arena NULL
     (segregated_free_lists two_node_arena
        (fst (select_list 0 (GET_SIZE two_node_arena (HDRP 0x10010))))) [0x10050]"
    by (simp add: s) (simp add: two_node_arena_def SUCC_def PRED_def SUCC_PTR_def GET_def)
  have c: "clear_of 0x10010 0x10050" by (simp add: clear_of_def)
  then have h2: "\<forall>n\<in>set [0x10050]. clear_of 0x10010 n" by simp
  from insert_then_delete_restores [OF h1 h2] obtain st2 where
    "insert_delete two_node_arena 0x10010 = Some st2"
    "segregated_free_lists st2 = segregated_free_lists two_node_arena"
    "\<And>a. a \<noteq> 0x10010 \<and> a \<noteq> 0x10010 + 4 \<Longrightarrow> heap st2 a = heap two_node_arena a"
    by blast
  then have "list_after (insert_delete two_node_arena 0x10010) 5 = Some 0x10050"
    "heap_after (insert_delete two_node_arena 0x10010) 0x10050 = Some NULL"
    "heap_after (insert_delete two_node_arena 0x10010) 0x10054 = Some NULL"
    by (simp_all add: list_after_def heap_after_def GET_def two_node_arena_def)
  then show ?thesis using h1 c by simp
qed

section \<open>The runs, call by call\<close>

lemmas step_defs = mm_defs memcpy_def upt_rec fun_eq_iff

lemma init_fresh: "mm_init empty_arena = Some (fresh_heap, 0)"
  unfolding empty_arena_def fresh_heap_def by (simp add: step_defs cong: let_weak_cong)

subsection \<open>A request of \<open>2^32 - 1\<close> bytes\<close>

text \<open>\<^verbatim>\<open>ALIGN(size + DSIZE)\<close> at the largest \<^verbatim>\<open>size_t\<close>: the sum wraps around to 7.\<close>

lemma adjust_size_max: "adjust_size 0xFFFFFFFF = 8"
  by (simp add: adjust_size_def ALIGN_def)

lemma ovf1_step: "mm_malloc fresh_heap 0xFFFFFFFF = Some (ovf1, 0x10010)"
  unfolding fresh_heap_def ovf1_def
  by (simp add: adjust_size_max step_defs cong: let_weak_cong del: adjust_size_def)

text \<open>
  Claim C1 against the code. \<^verbatim>\<open>mm_malloc(0xFFFFFFFF)\<close> on the fresh heap: the sum
  \<^verbatim>\<open>size + DSIZE\<close> wraps around to 7, the adjusted size is 8, and the call returns the
  non-NULL pointer \<open>0x10010\<close> to a block whose header reads \<open>(8, allocated)\<close>: a header
  and a footer with no payload byte between them, where the claim asks for at least
  \<open>2^32 - 1\<close> usable bytes.
\<close>

theorem malloc_overflow_returns_empty_block:
  "overflow_malloc = Some (ovf1, 0x10010)
   \<and> GET ovf1 (HDRP 0x10010) = PACK 8 1
   \<and> GET_SIZE ovf1 (HDRP 0x10010) - DSIZE = 0"
proof -
  have "overflow_malloc = Some (ovf1, 0x10010)"
    by (simp add: overflow_malloc_def init_fresh ovf1_step)
  moreover have "GET ovf1 (HDRP 0x10010) = PACK 8 1"
    by (simp add: ovf1_def GET_def HDRP_def PACK_def)
  moreover have "GET_SIZE ovf1 (HDRP 0x10010) - DSIZE = 0"
    by (simp add: ovf1_def GET_SIZE_def GET_def HDRP_def)
  ultimately show ?thesis by simp
qed

subsection \<open>Growing a block whose free neighbour is not the last block\<close>

lemma rz1_step: "mm_malloc fresh_heap 8 = Some (rz1, 0x10010)"
  unfolding fresh_heap_def rz1_def by (simp add: step_defs cong: let_weak_cong)

lemma rz2_step: "mm_malloc rz1 4136 = Some (rz2, 0x10050)"
  unfolding rz1_def rz2_def by (simp add: step_defs cong: let_weak_cong)

lemma rz3_step: "mm_malloc rz2 4064 = Some (rz3, 0x11098)"
  unfolding rz2_def rz3_def by (simp add: step_defs cong: let_weak_cong)

lemma rz4_step: "mm_free rz3 0x11098 = Some rz4"
  unfolding rz3_def rz4_def by (simp add: step_defs cong: let_weak_cong)

lemma rz5_step: "mm_realloc rz4 0x10010 4096 = Some (rz5, 0x10010)"
  unfolding rz4_def rz5_def by (simp add: step_defs cong: let_weak_cong)

text \<open>
  Claim C2 against the code. Before the call of \<^verbatim>\<open>mm_realloc\<close> the arena holds the
  blocks \<open>p\<close> (16, allocated), a free block of 48 bytes, \<open>y\<close> (4144, allocated) and a
  free block of 4096 bytes, and no two neighbours are free. \<^verbatim>\<open>mm_realloc(p, 4096)\<close>
  finds the next block free, extends the heap at its end by 4168 bytes although the
  live block \<open>y\<close> lies in between, and gives \<open>p\<close> the size 4232. The block chain then
  reads \<open>p\<close> (4232, allocated), a free block of 4072 bytes and a free block of 4168
  bytes: two neighbours that are both free.
\<close>

theorem resize_leaves_adjacent_free_blocks:
  "before_resize = Some (rz4, 0x10010)
   \<and> heap_walk rz4 0x10010 = Some [0x10010, 0x10020, 0x10050, 0x11080]
   \<and> block_tags rz4 [0x10010, 0x10020, 0x10050, 0x11080] = [17, 48, 4145, 4096]
   \<and> adjacent_free rz4 [0x10010, 0x10020, 0x10050, 0x11080] = False
   \<and> after_resize = Some (rz5, 0x10010)
   \<and> heap_walk rz5 0x10010 = Some [0x10010, 0x11098, 0x12080]
   \<and> block_tags rz5 [0x10010, 0x11098, 0x12080] = [4233, 4072, 4168]
   \<and> adjacent_free rz5 [0x10010, 0x11098, 0x12080] = True"
proof -
  have b: "before_resize = Some (rz4, 0x10010)"
    by (simp add: before_resize_def init_fresh rz1_step rz2_step rz3_step rz4_step)
  have a: "after_resize = Some (rz5, 0x10010)"
    by (simp add: after_resize_def b rz5_step)
  have w4: "heap_walk rz4 0x10010 = Some [0x10010, 0x10020, 0x10050, 0x11080]"
    by (simp add: rz4_def heap_walk.simps GET_SIZE_def GET_def HDRP_def NEXT_BLKP_def)
  have t4: "block_tags rz4 [0x10010, 0x10020, 0x10050, 0x11080] = [17, 48, 4145, 4096]"
    by (simp add: rz4_def block_tags_def GET_def HDRP_def)
  have f4: "adjacent_free rz4 [0x10010, 0x10020, 0x10050, 0x11080] = False"
    by (simp add: rz4_def GET_ALLOC_def GET_def HDRP_def)
  have w5: "heap_walk rz5 0x10010 = Some [0x10010, 0x11098, 0x12080]"
    by (simp add: rz5_def heap_walk.simps GET_SIZE_def GET_def HDRP_def NEXT_BLKP_def)
  have t5: "block_tags rz5 [0x10010, 0x11098, 0x12080] = [4233, 4072, 4168]"
    by (simp add: rz5_def block_tags_def GET_def HDRP_def)
  have f5: "adjacent_free rz5 [0x10010, 0x11098, 0x12080] = True"
    by (simp add: rz5_def GET_ALLOC_def GET_def HDRP_def)
  show ?thesis using b a w4 t4 f4 w5 t5 f5 by simp
qed

subsection \<open>Two blocks of one size class freed in ascending order of size\<close>

lemma fr1_step: "mm_malloc fresh_heap 24 = Some (fr1, 0x10010)"
  unfolding fresh_heap_def fr1_def by (simp add: step_defs cong: let_weak_cong)

lemma fr2_step: "mm_malloc fr1 8 = Some (fr2, 0x10030)"
  unfolding fr1_def fr2_def by (simp add: step_defs cong: let_weak_cong)

lemma fr3_step: "mm_malloc fr2 40 = Some (fr3, 0x10050)"
  unfolding fr2_def fr3_def by (simp add: step_defs cong: let_weak_cong)

lemma fr4_step: "mm_malloc fr3 8 = Some (fr4, 0x10080)"
  unfolding fr3_def fr4_def by (simp add: step_defs cong: let_weak_cong)

lemma fr5_step: "mm_free fr4 0x10010 = Some fr5"
  unfolding fr4_def fr5_def by (simp add: step_defs cong: let_weak_cong)

lemma fr6_step: "mm_free fr5 0x10050 = Some fr6"
  unfolding fr5_def fr6_def by (simp add: step_defs cong: let_weak_cong)

text \<open>
  Claim C9 against the code. After \<^verbatim>\<open>mm_free(a)\<close> bucket 5 is the list of the one
  block \<open>a\<close> of 32 bytes, which is in ascending order. \<^verbatim>\<open>mm_free(c)\<close> inserts the block
  \<open>c\<close> of 48 bytes into the same bucket: \<^verbatim>\<open>insert_node\<close> compares the block sizes of the
  list with its variable \<^verbatim>\<open>size\<close>, which the selection loop has shifted down to 1, so the
  search stops at once and \<open>c\<close> becomes the head. Walked from the head along \<^verbatim>\<open>PRED\<close>
  the bucket now reads 48, 32.
\<close>

theorem insert_node_breaks_size_order:
  "one_free = Some (fr5, 0x10050)
   \<and> pred_chain fr5 (segregated_free_lists fr5 5) [0x10010]
   \<and> chain_sizes fr5 [0x10010] = [32]
   \<and> two_frees = Some fr6
   \<and> pred_chain fr6 (segregated_free_lists fr6 5) [0x10050, 0x10010]
   \<and> chain_sizes fr6 [0x10050, 0x10010] = [48, 32]
   \<and> sorted (chain_sizes fr6 [0x10050, 0x10010]) = False"
proof -
  have o: "one_free = Some (fr5, 0x10050)"
    by (simp add: one_free_def init_fresh fr1_step fr2_step fr3_step fr4_step fr5_step)
  have t: "two_frees = Some fr6"
    by (simp add: two_frees_def o fr6_step)
  have c5: "pred_chain fr5 (segregated_free_lists fr5 5) [0x10010]"
    by (simp add: fr5_def PRED_def GET_def)
  have s5: "chain_sizes fr5 [0x10010] = [32]"
    by (simp add: fr5_def chain_sizes_def GET_SIZE_def GET_def HDRP_def)
  have c6: "pred_chain fr6 (segregated_free_lists fr6 5) [0x10050, 0x10010]"
    by (simp add: fr6_def PRED_def GET_def)
  have s6: "chain_sizes fr6 [0x10050, 0x10010] = [48, 32]"
    by (simp add: fr6_def chain_sizes_def GET_SIZE_def GET_def HDRP_def)
  show ?thesis using o t c5 s5 c6 s6 by simp
qed

subsection \<open>Resizing to \<open>2^32 - 8\<close> bytes\<close>

lemma ov1_step: "mm_malloc fresh_heap 56 = Some (ov1, 0x10010)"
  unfolding fresh_heap_def ov1_def by (simp add: step_defs cong: let_weak_cong)

lemma ov2_step: "mm_malloc ov1 56 = Some (ov2, 0x10050)"
  unfolding ov1_def ov2_def by (simp add: step_defs cong: let_weak_cong)

lemma ov3_step: "mm_malloc ov2 8 = Some (ov3, 0x10090)"
  unfolding ov2_def ov3_def by (simp add: step_defs cong: let_weak_cong)

lemma ov4_step: "mm_malloc ov3 56 = Some (ov4, 0x100A0)"
  unfolding ov3_def ov4_def by (simp add: step_defs cong: let_weak_cong)

lemma ov5_step: "mm_malloc ov4 56 = Some (ov5, 0x100E0)"
  unfolding ov4_def ov5_def by (simp add: step_defs cong: let_weak_cong)

lemma ov6_step: "caller_store (caller_store (caller_store (caller_store ov5 0x10090 0x41414141) 0x10094 0x41414141) 0x10108 0x80) 0x1010C 0xFFFFFF88 = ov6"
  unfolding ov5_def ov6_def by (simp add: caller_store_def fun_eq_iff)

lemma ov7_step: "mm_free ov6 0x10010 = Some ov7"
  unfolding ov6_def ov7_def by (simp add: step_defs cong: let_weak_cong)

lemma ov8_step: "mm_free ov7 0x10050 = Some ov8"
  unfolding ov7_def ov8_def by (simp add: step_defs cong: let_weak_cong)

lemma ov9_step: "mm_realloc ov8 0x10090 0xFFFFFFF8 = Some (ov9, 0x10010)"
  unfolding ov8_def ov9_def by (simp add: step_defs cong: let_weak_cong)

text \<open>
  Claim C7 against the code. The block \<open>p\<close> was requested with 8 bytes and holds the
  bytes \<open>0x41\<close>. In \<^verbatim>\<open>mm_realloc(p, 0xFFFFFFF8)\<close> the sum \<^verbatim>\<open>size + DSIZE\<close> wraps around
  to 0, so \<^verbatim>\<open>new_size\<close> is 128: the call takes the free block of 128 bytes in front of
  \<open>p\<close> as the new block \<open>q\<close> and copies 128 bytes into its 120 bytes of payload. The
  copy runs over the footer of \<open>q\<close> and over the header of \<open>p\<close>, which receives the word
  \<open>0xFFFFFF88\<close> that the caller keeps in its block \<open>y2\<close>. \<^verbatim>\<open>mm_free(p)\<close> reads the block
  size from that header and writes the footer of \<open>p\<close> at \<open>p - 128\<close>, the first word of
  \<open>q\<close>. The call returns \<open>q = 0x10010\<close>, whose first payload byte is \<open>0x88\<close>.
\<close>

theorem resize_overflow_corrupts_payload:
  "before_overflow_resize = Some (ov8, 0x10090)
   \<and> GET ov8 (HDRP 0x10090) = PACK 16 1
   \<and> GET ov8 0x10090 = 0x41414141
   \<and> byte_at ov8 0x10090 = 0x41
   \<and> after_overflow_resize = Some (ov9, 0x10010)
   \<and> GET ov9 0x10010 = 0xFFFFFF88
   \<and> byte_at ov9 0x10010 = 0x88"
proof -
  have b: "before_overflow_resize = Some (ov8, 0x10090)"
    using ov6_step
    by (simp add: before_overflow_resize_def init_fresh ov1_step ov2_step ov3_step ov4_step
        ov5_step ov7_step ov8_step)
  have a: "after_overflow_resize = Some (ov9, 0x10010)"
    by (simp add: after_overflow_resize_def b ov9_step)
  have h8: "GET ov8 (HDRP 0x10090) = PACK 16 1" "GET ov8 0x10090 = 0x41414141"
    by (simp_all add: ov8_def GET_def HDRP_def PACK_def)
  have b8: "byte_at ov8 0x10090 = 0x41"
    by (simp add: ov8_def byte_at_def)
  have h9: "GET ov9 0x10010 = 0xFFFFFF88"
    by (simp add: ov9_def GET_def)
  have b9: "byte_at ov9 0x10010 = 0x88"
    by (simp add: ov9_def byte_at_def)
  show ?thesis using b a h8 b8 h9 b9 by simp
qed

subsection \<open>Shrinking a block of more than \<open>2^31\<close> bytes\<close>

lemma init_large: "mm_init large_arena = Some (fresh_large, 0)"
  unfolding large_arena_def fresh_large_def by (simp add: step_defs cong: let_weak_cong)

lemma lg1_step: "mm_malloc fresh_large 0x7FFFFF00 = Some (lg1, 0x10050)"
  unfolding fresh_large_def lg1_def by (simp add: step_defs cong: let_weak_cong)

lemma lg2_step: "mm_realloc lg1 0x10050 0x80000100 = Some (lg2, 0x10050)"
  unfolding lg1_def lg2_def by (simp add: step_defs cong: let_weak_cong)

lemma lg3_step: "mm_malloc lg2 64 = Some (lg3, 0x80010F58)"
  unfolding lg2_def lg3_def by (simp add: step_defs cong: let_weak_cong)

lemma lg4_step: "mm_realloc lg3 0x10050 8 = Some (lg4, 0x80011EC8)"
  unfolding lg3_def lg4_def by (simp add: step_defs cong: let_weak_cong)

text \<open>
  Claim C6 against the code. On the large arena the block \<open>p = 0x10050\<close> is allocated
  with \<open>0x7FFFFF00\<close> bytes and grown in place to a block of \<open>0x80000F08\<close> bytes; every
  heap extension of the run is below \<open>2^31\<close> bytes. The block \<open>z\<close> is allocated behind
  it. For \<^verbatim>\<open>mm_realloc(p, 8)\<close> the adjusted size is \<open>16 + 128 = 144\<close>, which the block
  of \<open>p\<close> exceeds by far, so the request fits. The code stores the difference
  \<open>0x80000F08 - 144 = 0x80000E78\<close> in the \<^verbatim>\<open>int block_buffer\<close>, where it is a negative
  number, and takes the branch under \<^verbatim>\<open>Allocate more space if overhead falls below the
  minimum\<close>: it allocates a new block of 144 bytes at the end of the heap, copies 8
  bytes, frees \<open>p\<close> (which is merged with the free block in front of it and entered
  in bucket 19) and returns the new block \<open>0x80011EC8\<close> instead of \<open>p\<close>.
\<close>

theorem resize_moves_block_that_fits:
  "before_shrink = Some (lg3, 0x10050)
   \<and> GET lg3 (HDRP 0x10050) = PACK 0x80000F08 1
   \<and> adjust_size 8 + REALLOC_BUFFER = 144
   \<and> adjust_size 8 + REALLOC_BUFFER \<le> GET_SIZE lg3 (HDRP 0x10050)
   \<and> sint (GET_SIZE lg3 (HDRP 0x10050) - (adjust_size 8 + REALLOC_BUFFER)) < 0
   \<and> after_shrink = Some (lg4, 0x80011EC8)
   \<and> GET_ALLOC lg4 (HDRP 0x10050) = 0
   \<and> GET lg4 (HDRP 0x10010) = PACK 0x80000F48 0
   \<and> segregated_free_lists lg4 19 = 0x10010"
proof -
  have b: "before_shrink = Some (lg3, 0x10050)"
    by (simp add: before_shrink_def init_large lg1_step lg2_step lg3_step)
  have a: "after_shrink = Some (lg4, 0x80011EC8)"
    by (simp add: after_shrink_def b lg4_step)
  have h3: "GET lg3 (HDRP 0x10050) = PACK 0x80000F08 1"
    by (simp add: lg3_def GET_def HDRP_def PACK_def)
  have n: "adjust_size 8 + REALLOC_BUFFER = 144"
    by (simp add: adjust_size_def)
  have s3: "GET_SIZE lg3 (HDRP 0x10050) = 0x80000F08"
    by (simp add: lg3_def GET_SIZE_def GET_def HDRP_def)
  have f: "adjust_size 8 + REALLOC_BUFFER \<le> GET_SIZE lg3 (HDRP 0x10050)"
    unfolding n s3 by simp
  have g: "sint (GET_SIZE lg3 (HDRP 0x10050) - (adjust_size 8 + REALLOC_BUFFER)) < 0"
    unfolding n s3 by simp
  have h4: "GET_ALLOC lg4 (HDRP 0x10050) = 0" "GET lg4 (HDRP 0x10010) = PACK 0x80000F48 0"
    "segregated_free_lists lg4 19 = 0x10010"
    by (simp_all add: lg4_def GET_ALLOC_def GET_def HDRP_def PACK_def)
  show ?thesis using b a h3 n f g h4 by simp
qed

end
